theory Spec2Isabelle
  imports Main
begin

unbundle bit_operations_syntax

section \<open>Python values, exceptions and objects\<close>

text \<open>
  A shallow embedding of \<^verbatim>\<open>Pyro5/server.py\<close>. Objects live in a heap and are named by
  references; dictionaries are maps; every \<^verbatim>\<open>raise\<close> is a value of the left summand
  of a sum type. The model is sequential: one call of a function of the daemon runs to its
  end before the next starts.
\<close>

type_synonym ref = nat
type_synonym conn = nat
type_synonym timestamp = int

text \<open>
  Exception classes. The Pyro classes come from the \<^verbatim>\<open>errors\<close> module, which is not
  part of the file; \<open>exc_mro\<close> lists the classes an instance of each belongs to
  (\<^verbatim>\<open>Exception\<close> and above left out). Every value of type \<open>exn\<close> is an instance of
  Python's \<^verbatim>\<open>Exception\<close>, which is what the handlers \<^verbatim>\<open>except Exception\<close> of the
  file catch.
\<close>

datatype exc_class =
    StopIteration | AttributeError | IndexError | KeyError | NameError | TypeError | ValueError
  | ZeroDivisionError
  | PyroError | CommunicationError | ConnectionClosedError | ProtocolError
  | SerializationError | SecurityError | DaemonError
  | OtherException string

record exn =
  exc_type :: exc_class
  exc_str :: string
  pyroTraceback :: "string list option"
  pyroMsg :: "(int \<times> int) option"

definition mk_exn :: "exc_class \<Rightarrow> string \<Rightarrow> exn" where
  "mk_exn c m = \<lparr>exc_type = c, exc_str = m, pyroTraceback = None, pyroMsg = None\<rparr>"

text \<open>
  The exception of a name that is bound nowhere: \<^verbatim>\<open>NameError: name 'x' is not defined\<close>.
\<close>

definition unbound :: "string \<Rightarrow> exn" where
  "unbound name = mk_exn NameError (''name '' @ [CHR 0x27] @ name @ [CHR 0x27] @ '' is not defined'')"



text \<open>
  Values that travel in calls and replies. \<open>VCall m vargs kwargs\<close> is the tuple
  \<^verbatim>\<open>(method, vargs, kwargs)\<close> of a batch; \<open>VRef r\<close> is a reference to a heap object;
  \<open>VExcWrapper e\<close> is \<^verbatim>\<open>futures._ExceptionWrapper(e)\<close>.
\<close>

datatype pyval =
    VNone | VBool bool | VInt int | VStr string | VList "pyval list"
  | VCall string "pyval list" "(string \<times> pyval) list"
  | VRef ref
  | VExc exn
  | VExcWrapper exn

text \<open>
  A function object with the attributes the decorators \<^verbatim>\<open>expose\<close>, \<^verbatim>\<open>oneway\<close> and
  \<^verbatim>\<open>callback\<close> stamp on it (\<open>None\<close>: the attribute is absent), and what
  \<^verbatim>\<open>getattr(cls, name)\<close> can yield for a class.
\<close>

record func =
  func_name :: string
  pyroExposed :: "bool option"
  pyroOneway :: "bool option"
  pyroCallback :: "bool option"

datatype attr =
    Function func
  | Method func
  | Property "func option" "func option" "func option"
  | Descriptor
  | Data pyval

text \<open>
  A heap object. \<open>cls\<close> is \<^verbatim>\<open>obj.__class__\<close>; for a class, \<open>supers\<close> is its
  \<^verbatim>\<open>__mro__\<close> without the class itself and \<open>members\<close> its own \<^verbatim>\<open>__dict__\<close>
  (functions, properties, data). The three attributes that \<^verbatim>\<open>register\<close> and
  \<^verbatim>\<open>behavior\<close> stamp on an object are fields of their own, \<open>None\<close> or \<open>False\<close> when
  the object's own \<^verbatim>\<open>__dict__\<close> lacks them. \<open>truthy\<close> is \<^verbatim>\<open>bool(obj)\<close>;
  \<open>pytype\<close> is \<^verbatim>\<open>type(obj)\<close>, as far as \<^verbatim>\<open>_streamResponse\<close> tells types apart.
\<close>

text \<open>
  The types that \<^verbatim>\<open>_streamResponse\<close> tells apart: the three views of a dict
  (\<^verbatim>\<open>type({}.keys())\<close>, \<^verbatim>\<open>type({}.values())\<close>, \<^verbatim>\<open>type({}.items())\<close>), the
  three iterators over them (\<^verbatim>\<open>type(iter({}.keys()))\<close> and so on), generators, other
  iterator classes, and the rest. \<open>is_iterator\<close> is the test
  \<^verbatim>\<open>isinstance(data, collections.Iterator) or inspect.isgenerator(data)\<close> on a value
  of the type, as Python 3 answers it: a view of a dict is iterable but is no iterator.
  \<open>lazy_dict_iterator_types\<close> is the tuple of that name, in the branch of the file for
  Python 3.
\<close>

datatype pytype =
    dict_keys | dict_values | dict_items
  | dict_keyiterator | dict_valueiterator | dict_itemiterator
  | generator | iterator_class | other_type

fun is_iterator :: "pytype \<Rightarrow> bool" where
  "is_iterator dict_keyiterator = True"
| "is_iterator dict_valueiterator = True"
| "is_iterator dict_itemiterator = True"
| "is_iterator generator = True"
| "is_iterator iterator_class = True"
| "is_iterator _ = False"

definition lazy_dict_iterator_types :: "pytype set" where
  "lazy_dict_iterator_types = {dict_keys, dict_values, dict_items}"

record pyobj =
  isclass :: bool
  cls :: ref
  supers :: "ref list"
  members :: "(string \<times> attr) list"
  own_pyroId :: "string option"
  own_pyroDaemon :: bool
  own_pyroInstancing :: "(string \<times> func option) option"
  truthy :: bool
  pytype :: pytype

type_synonym heap = "ref \<Rightarrow> pyobj"

fun first_some :: "'a option list \<Rightarrow> 'a option" where
  "first_some [] = None"
| "first_some (Some x # _) = Some x"
| "first_some (None # r) = first_some r"

text \<open>
  Attribute lookup: the object's own dictionary first, then the classes of its type's
  method resolution order.
\<close>

definition search_path :: "heap \<Rightarrow> ref \<Rightarrow> ref list" where
  "search_path h r =
     (if isclass (h r) then r # supers (h r)
      else r # cls (h r) # supers (h (cls (h r))))"

definition getattr_pyroId :: "heap \<Rightarrow> ref \<Rightarrow> string option" where
  "getattr_pyroId h r = first_some (map (\<lambda>k. own_pyroId (h k)) (search_path h r))"

definition getattr_pyroInstancing :: "heap \<Rightarrow> ref \<Rightarrow> (string \<times> func option) option" where
  "getattr_pyroInstancing h r = first_some (map (\<lambda>k. own_pyroInstancing (h k)) (search_path h r))"

definition class_getattr :: "heap \<Rightarrow> ref \<Rightarrow> string \<Rightarrow> attr option" where
  "class_getattr h c m = first_some (map (\<lambda>k. map_of (members (h k)) m) (c # supers (h c)))"

definition dir_class :: "heap \<Rightarrow> ref \<Rightarrow> string list" where
  "dir_class h c = remdups (concat (map (\<lambda>k. map fst (members (h k))) (c # supers (h c))))"

text \<open>\<^verbatim>\<open>getattr(f, "_pyroExposed", default)\<close>, read for its truth value.\<close>

definition getattr_tag :: "bool option \<Rightarrow> bool \<Rightarrow> bool" where
  "getattr_tag t d = (case t of None \<Rightarrow> d | Some b \<Rightarrow> b)"

section \<open>The daemon's state\<close>

record metadata =
  methods :: "string set"
  oneway :: "string set"
  attrs :: "string set"

record current_context =
  ctx_client :: "conn option"
  ctx_client_sock_addr :: string
  ctx_correlation_id :: "string option"
  ctx_seq :: int
  ctx_annotations :: "string \<rightharpoonup> string"
  ctx_msg_flags :: int
  ctx_serializer_id :: int

text \<open>
  The daemon (\<open>objectsById\<close>, \<open>pyroInstances\<close>, \<open>streaming_responses\<close>, the two
  location strings), the per-connection \<^verbatim>\<open>pyroInstances\<close>, the module's
  \<^verbatim>\<open>__exposed_member_cache\<close>, the current context of \<^verbatim>\<open>core\<close>, the clock that
  \<^verbatim>\<open>time.time()\<close> reads, the number of UUIDs drawn so far and the next free
  address of the heap.
\<close>

record state =
  heap :: heap
  objectsById :: "string \<rightharpoonup> ref"
  pyroInstances :: "ref \<rightharpoonup> ref"
  conn_pyroInstances :: "conn \<Rightarrow> (ref \<rightharpoonup> ref)"
  streaming_responses :: "string \<rightharpoonup> (conn option \<times> timestamp \<times> timestamp \<times> ref)"
  locationStr :: string
  natLocationStr :: "string option"
  exposed_member_cache :: "(ref \<times> bool \<times> bool) \<rightharpoonup> metadata"
  ctx :: current_context
  clock :: timestamp
  uuids_drawn :: nat
  next_ref :: ref

section \<open>Private names and the exposed members of a class\<close>

definition startswith :: "string \<Rightarrow> string \<Rightarrow> bool" where
  "startswith p s = (take (length p) s = p)"

definition endswith :: "string \<Rightarrow> string \<Rightarrow> bool" where
  "endswith p s = (length p \<le> length s \<and> drop (length s - length p) s = p)"

definition private_dunder_methods :: "string set" where
  "private_dunder_methods = set [
     ''__init__'', ''__call__'', ''__new__'', ''__del__'', ''__repr__'', ''__unicode__'',
     ''__str__'', ''__format__'', ''__nonzero__'', ''__bool__'', ''__coerce__'',
     ''__cmp__'', ''__eq__'', ''__ne__'', ''__hash__'',
     ''__dir__'', ''__enter__'', ''__exit__'', ''__copy__'', ''__deepcopy__'', ''__sizeof__'',
     ''__getattr__'', ''__setattr__'', ''__hasattr__'', ''__getattribute__'', ''__delattr__'',
     ''__instancecheck__'', ''__subclasscheck__'', ''__getinitargs__'', ''__getnewargs__'',
     ''__getstate__'', ''__setstate__'', ''__reduce__'', ''__reduce_ex__'',
     ''__getstate_for_dict__'', ''__setstate_from_dict__'', ''__subclasshook__'']"

definition is_private_attribute :: "string \<Rightarrow> bool" where
  "is_private_attribute attr_name =
     (if attr_name \<in> private_dunder_methods then True
      else if \<not> startswith ''_'' attr_name then False
      else if length attr_name > 4 \<and> startswith ''__'' attr_name \<and> endswith ''__'' attr_name
        then False
      else True)"

text \<open>
  The claim's wording of a private name, to be compared with \<open>is_private_attribute\<close>:
  a name of the deny-list, or a name with a leading underscore that is not a
  double-underscore-delimited name of length greater than 4.
\<close>

definition private_name :: "string \<Rightarrow> bool" where
  "private_name n =
     (n \<in> private_dunder_methods \<or>
      (startswith ''_'' n \<and> \<not> (startswith ''__'' n \<and> endswith ''__'' n \<and> 4 < length n)))"

definition empty_metadata :: metadata where
  "empty_metadata = \<lparr>methods = {}, oneway = {}, attrs = {}\<rparr>"

text \<open>One turn of the loop \<^verbatim>\<open>for m in dir(obj)\<close> of \<^verbatim>\<open>get_exposed_members\<close>.\<close>

definition add_function :: "func \<Rightarrow> bool \<Rightarrow> string \<Rightarrow> metadata \<Rightarrow> metadata" where
  "add_function v only_exposed m md =
     (if getattr_tag (pyroExposed v) (\<not> only_exposed)
      then md\<lparr>methods := insert m (methods md),
              oneway := (if getattr_tag (pyroOneway v) False
                         then insert m (oneway md) else oneway md)\<rparr>
      else md)"

definition member_step :: "heap \<Rightarrow> ref \<Rightarrow> bool \<Rightarrow> string \<Rightarrow> metadata \<Rightarrow> metadata" where
  "member_step h c only_exposed m md =
     (if is_private_attribute m then md
      else case class_getattr h c m of
          None \<Rightarrow> md
        | Some (Function v) \<Rightarrow> add_function v only_exposed m md
        | Some (Method v) \<Rightarrow> add_function v only_exposed m md
        | Some (Property fget fset fdel) \<Rightarrow>
            (case first_some [fget, fset, fdel] of
               None \<Rightarrow> md
             | Some f \<Rightarrow>
                 if getattr_tag (pyroExposed f) (\<not> only_exposed)
                 then md\<lparr>attrs := insert m (attrs md)\<rparr> else md)
        | Some Descriptor \<Rightarrow> md
        | Some (Data _) \<Rightarrow> md)"

text \<open>
  \<^verbatim>\<open>get_exposed_members(obj, only_exposed, as_lists, use_cache)\<close>. With \<open>as_lists\<close> the
  three sets are returned as lists of the same elements; the model keeps them as sets and
  keeps \<open>as_lists\<close> in the cache key.
\<close>

definition get_exposed_members ::
  "ref \<Rightarrow> bool \<Rightarrow> bool \<Rightarrow> bool \<Rightarrow> state \<Rightarrow> metadata \<times> state" where
  "get_exposed_members obj only_exposed as_lists use_cache s =
     (let h = heap s;
          c = (if isclass (h obj) then obj else cls (h obj));
          cache_key = (c, only_exposed, as_lists)
      in case (if use_cache then exposed_member_cache s cache_key else None) of
           Some cached \<Rightarrow> (cached, s)
         | None \<Rightarrow>
             (let result = fold (member_step h c only_exposed) (dir_class h c) empty_metadata
              in (result, s\<lparr>exposed_member_cache := (exposed_member_cache s)(cache_key \<mapsto> result)\<rparr>)))"

definition reset_exposed_members :: "ref \<Rightarrow> bool \<Rightarrow> bool \<Rightarrow> state \<Rightarrow> state" where
  "reset_exposed_members obj only_exposed as_lists s =
     (let h = heap s;
          c = (if isclass (h obj) then obj else cls (h obj))
      in s\<lparr>exposed_member_cache := (exposed_member_cache s)((c, only_exposed, as_lists) := None)\<rparr>)"

text \<open>The names of a result, and the invariant of the cache: it holds results only.\<close>

definition exposed_names :: "metadata \<Rightarrow> string set" where
  "exposed_names md = methods md \<union> oneway md \<union> attrs md"

definition cache_clean :: "state \<Rightarrow> bool" where
  "cache_clean s =
     (\<forall>k md. exposed_member_cache s k = Some md \<longrightarrow> (\<forall>n \<in> exposed_names md. \<not> private_name n))"



section \<open>What the file takes from elsewhere\<close>

text \<open>
  Modelled from the spec: the message types and flags of the \<^verbatim>\<open>protocol\<close> module
  (section 4.1), which is not part of the file. Each flag is one bit of the header's flag
  word, so that \<^verbatim>\<open>flags & FLAG\<close> tests it and \<^verbatim>\<open>flags |= FLAG\<close> sets it.
\<close>

datatype msgtype = MSG_CONNECT | MSG_CONNECTOK | MSG_CONNECTFAIL | MSG_INVOKE | MSG_RESULT | MSG_PING

definition FLAGS_EXCEPTION :: int where "FLAGS_EXCEPTION = 1"
definition FLAGS_COMPRESSED :: int where "FLAGS_COMPRESSED = 2"
definition FLAGS_ONEWAY :: int where "FLAGS_ONEWAY = 4"
definition FLAGS_BATCH :: int where "FLAGS_BATCH = 8"
definition FLAGS_ITEMSTREAMRESULT :: int where "FLAGS_ITEMSTREAMRESULT = 16"

record message =
  mtype :: msgtype
  mflags :: int
  mseq :: int
  mserializer_id :: int
  mdata :: string
  mannotations :: "string \<rightharpoonup> string"

text \<open>
  A serializer of the \<^verbatim>\<open>serializers\<close> module: its id and the two operations the daemon
  uses, each of which may raise. A UUID with the three renderings the file reads
  (\<^verbatim>\<open>.bytes\<close>, \<^verbatim>\<open>str()\<close>, \<^verbatim>\<open>.hex\<close>).
\<close>

record serializer =
  ser_id :: int
  serializeData :: "pyval \<Rightarrow> bool \<Rightarrow> exn + (string \<times> bool)"
  deserializeCall ::
    "string \<Rightarrow> bool \<Rightarrow> exn + (string \<times> string \<times> pyval list \<times> (string \<times> pyval) list)"

record uuid =
  uuid_bytes :: string
  uuid_text :: string
  uuid_hex :: string

record config =
  ITER_STREAMING :: bool
  ONEWAY_THREADED :: bool
  COMPRESSION :: bool
  DETAILED_TRACEBACK :: bool

text \<open>The bound method that \<^verbatim>\<open>util.getAttribute(obj, name)\<close> returns.\<close>

datatype callable = Bound ref func

text \<open>
  The collaborators of the file, as parameters: the configuration, the accepted
  serializer ids (\<^verbatim>\<open>self.__serializer_ids\<close>), \<^verbatim>\<open>serializers.get_serializer_by_id\<close>,
  \<^verbatim>\<open>util.getAttribute\<close>, the code behind a function object (\<open>call\<close>: the function,
  its positional and keyword arguments), a class's constructor (\<open>construct\<close>),
  \<^verbatim>\<open>next()\<close> of an iterator (\<open>it_next\<close>), \<^verbatim>\<open>uuid.uuid4()\<close> (by the number of
  UUIDs drawn before), \<^verbatim>\<open>errors.formatTraceback\<close> and the peer address of a
  connection. User code may change any part of the state.

  Four names that the file uses are bound nowhere in it: \<^verbatim>\<open>util\<close>,
  \<^verbatim>\<open>futures\<close>, \<^verbatim>\<open>URI\<close> and \<^verbatim>\<open>Proxy\<close>. Evaluating one raises
  \<^verbatim>\<open>NameError\<close>. The fields \<open>getAttribute\<close>, \<open>ExceptionWrapper\<close> and \<open>new_URI\<close> say
  what the expressions \<^verbatim>\<open>util.getAttribute(obj, name)\<close>,
  \<^verbatim>\<open>futures._ExceptionWrapper(e)\<close> and \<^verbatim>\<open>URI(text)\<close> yield: in the file as it
  stands, the exception \<open>unbound\<close> of the name, whatever the arguments. A theorem about
  every environment holds of the file as it stands; every concrete run below is a run of
  the file as it stands.
\<close>

datatype uri = URI string

record env =
  config :: config
  serializer_ids :: "int set"
  get_serializer_by_id :: "int \<Rightarrow> exn + serializer"
  getAttribute :: "state \<Rightarrow> ref \<Rightarrow> string \<Rightarrow> exn + callable"
  ExceptionWrapper :: "exn \<Rightarrow> exn + pyval"
  new_URI :: "string \<Rightarrow> exn + uri"
  call :: "func \<Rightarrow> pyval list \<Rightarrow> (string \<times> pyval) list \<Rightarrow> state \<Rightarrow> (exn + pyval) \<times> state"
  construct :: "ref \<Rightarrow> state \<Rightarrow> (exn + ref) \<times> state"
  it_next :: "ref \<Rightarrow> state \<Rightarrow> (exn + pyval) \<times> state"
  uuid4 :: "nat \<Rightarrow> uuid"
  formatTraceback :: "bool \<Rightarrow> exn \<Rightarrow> string list"
  getpeername :: "conn \<Rightarrow> string"

text \<open>
  What a run of the daemon does that an observer sees: a message sent on a connection, a
  method called (\<^verbatim>\<open>method(*vargs, **kwargs)\<close>), a oneway call handed to a thread of
  its own.
\<close>

datatype event =
    Sent conn message
  | Invoked callable "pyval list" "(string \<times> pyval) list"
  | Spawned callable "pyval list" "(string \<times> pyval) list"

definition invoke ::
  "env \<Rightarrow> callable \<Rightarrow> pyval list \<Rightarrow> (string \<times> pyval) list \<Rightarrow> state \<Rightarrow> (exn + pyval) \<times> state" where
  "invoke env m vargs kwargs s = (case m of Bound self f \<Rightarrow> call env f (VRef self # vargs) kwargs s)"

section \<open>Object registry\<close>

text \<open>
  \<^verbatim>\<open>core.DAEMON_NAME\<close>, the id of the daemon's own object. The type \<open>uri\<close> above
  is what \<^verbatim>\<open>URI(text)\<close> yields when the name is bound. Modelled from the spec: a URI
  is rendered as \<^verbatim>\<open>PYRO:<object-id>@<host:port>\<close> (section 3); the model keeps the
  text it is built from.
\<close>

definition DAEMON_NAME :: string where
  "DAEMON_NAME = ''Pyro.Daemon''"

text \<open>The argument \<^verbatim>\<open>objectOrId\<close>: \<^verbatim>\<open>None\<close>, a string, or an object.\<close>

datatype target = TNone | TStr string | TObj ref

definition uriFor :: "env \<Rightarrow> target \<Rightarrow> bool \<Rightarrow> state \<Rightarrow> exn + uri" where
  "uriFor env objectOrId use_nat s =
     (let unregistered = mk_exn DaemonError ''object isn't registered in this daemon'';
          resolved =
            (case objectOrId of
               TStr i \<Rightarrow> Inr i
             | TObj r \<Rightarrow>
                 (case getattr_pyroId (heap s) r of
                    None \<Rightarrow> Inl unregistered
                  | Some i \<Rightarrow> if i \<notin> dom (objectsById s) then Inl unregistered else Inr i)
             | TNone \<Rightarrow> Inl unregistered)
      in case resolved of
           Inl e \<Rightarrow> Inl e
         | Inr i \<Rightarrow>
             (let loc = (if use_nat
                         then (case natLocationStr s of
                                 Some n \<Rightarrow> if n \<noteq> [] then n else locationStr s
                               | None \<Rightarrow> locationStr s)
                         else locationStr s)
              in new_URI env (''PYRO:'' @ i @ ''@'' @ loc)))"

text \<open>
  \<^verbatim>\<open>Daemon.register\<close>. The object id is a string or \<^verbatim>\<open>None\<close> (the
  \<^verbatim>\<open>TypeError\<close> for another type is excluded by the type). The type replacement
  that \<^verbatim>\<open>AUTOPROXY\<close> registers with the serializers is outside the state modelled.
  The last line, \<^verbatim>\<open>return self.uriFor(objectId)\<close>, is reached after the object is
  stamped and stored: what \<open>uriFor\<close> raises leaves \<open>register\<close> with the object
  registered.
\<close>

definition register :: "env \<Rightarrow> ref \<Rightarrow> string option \<Rightarrow> bool \<Rightarrow> state \<Rightarrow> (exn + uri) \<times> state" where
  "register env obj_or_class objectId force s =
     (let fresh = (''obj_'' @ uuid_hex (uuid4 env (uuids_drawn s)),
                   s\<lparr>uuids_drawn := Suc (uuids_drawn s)\<rparr>);
          (oid, s1) = (case objectId of
                         Some i \<Rightarrow> if i \<noteq> [] then (i, s) else fresh
                       | None \<Rightarrow> fresh);
          h1 = heap s1;
          s2 = (if isclass (h1 obj_or_class) \<and> getattr_pyroInstancing h1 obj_or_class = None
                then s1\<lparr>heap := h1(obj_or_class :=
                        (h1 obj_or_class)\<lparr>own_pyroInstancing := Some (''session'', None)\<rparr>)\<rparr>
                else s1)
      in if \<not> force \<and> (case getattr_pyroId (heap s2) obj_or_class of
                           Some i \<Rightarrow> i \<noteq> [] | None \<Rightarrow> False)
           then (Inl (mk_exn DaemonError ''object or class already has a Pyro id''), s2)
         else if \<not> force \<and> oid \<in> dom (objectsById s2)
           then (Inl (mk_exn DaemonError ''an object or class is already registered with that id''), s2)
         else
           (let s3 = s2\<lparr>heap := (heap s2)(obj_or_class :=
                           (heap s2 obj_or_class)\<lparr>own_pyroId := Some oid, own_pyroDaemon := True\<rparr>),
                        objectsById := (objectsById s2)(oid \<mapsto> obj_or_class)\<rparr>
            in case uriFor env (TStr oid) True s3 of
                 Inl e \<Rightarrow> (Inl e, s3)
               | Inr u \<Rightarrow> (Inr u, s3)))"

text \<open>
  \<^verbatim>\<open>Daemon.unregister\<close>: \<open>unregister_id\<close> is its second half, from
  \<^verbatim>\<open>if objectId == core.DAEMON_NAME\<close> on, with \<open>obj\<close> the value of
  \<^verbatim>\<open>objectOrId\<close> there (\<open>None\<close> after a call with a string). \<^verbatim>\<open>del\<close> of an
  attribute that the object's own dictionary lacks raises \<^verbatim>\<open>AttributeError\<close>.
\<close>

definition unregister_id :: "string \<Rightarrow> ref option \<Rightarrow> state \<Rightarrow> exn option \<times> state" where
  "unregister_id objectId obj s =
     (if objectId = DAEMON_NAME then (None, s)
      else if objectId \<in> dom (objectsById s) then
        (let s1 = s\<lparr>objectsById := (objectsById s)(objectId := None)\<rparr>
         in case obj of
              None \<Rightarrow> (None, s1)
            | Some r \<Rightarrow>
                if own_pyroId (heap s1 r) = None
                then (Some (mk_exn AttributeError ''_pyroId''), s1)
                else
                  (let s2 = s1\<lparr>heap := (heap s1)(r := (heap s1 r)\<lparr>own_pyroId := None\<rparr>)\<rparr>
                   in if \<not> own_pyroDaemon (heap s2 r)
                      then (Some (mk_exn AttributeError ''_pyroDaemon''), s2)
                      else (None, s2\<lparr>heap := (heap s2)(r := (heap s2 r)\<lparr>own_pyroDaemon := False\<rparr>)\<rparr>)))
      else (None, s))"

definition unregister :: "target \<Rightarrow> state \<Rightarrow> exn option \<times> state" where
  "unregister objectOrId s =
     (case objectOrId of
        TNone \<Rightarrow> (Some (mk_exn ValueError ''object or objectid argument expected''), s)
      | TObj r \<Rightarrow>
          (case getattr_pyroId (heap s) r of
             None \<Rightarrow> (Some (mk_exn DaemonError ''object isn't registered''), s)
           | Some objectId \<Rightarrow> unregister_id objectId (Some r) s)
      | TStr objectId \<Rightarrow> unregister_id objectId None s)"

section \<open>Instance manager\<close>

definition isinstance_obj :: "heap \<Rightarrow> ref \<Rightarrow> ref \<Rightarrow> bool" where
  "isinstance_obj h r clazz = (clazz \<in> set (cls (h r) # supers (h (cls (h r)))))"

text \<open>The local function \<^verbatim>\<open>createInstance\<close> of \<^verbatim>\<open>Daemon._getInstance\<close>.\<close>

definition createInstance :: "env \<Rightarrow> ref \<Rightarrow> func option \<Rightarrow> state \<Rightarrow> (exn + ref) \<times> state" where
  "createInstance env clazz creator s =
     (case creator of
        Some c \<Rightarrow>
          (case call env c [VRef clazz] [] s of
             (Inl e, s1) \<Rightarrow> (Inl e, s1)
           | (Inr (VRef r), s1) \<Rightarrow>
               if isinstance_obj (heap s1) r clazz then (Inr r, s1)
               else (Inl (mk_exn TypeError ''instance creator returned object of different type''), s1)
           | (Inr _, s1) \<Rightarrow>
               (Inl (mk_exn TypeError ''instance creator returned object of different type''), s1))
      | None \<Rightarrow> construct env clazz s)"

text \<open>
  \<^verbatim>\<open>instance = d.get(clazz)\<close> followed by the test \<^verbatim>\<open>if not instance\<close>: the stored
  instance is used when there is one and it is true.
\<close>

definition usable_instance :: "heap \<Rightarrow> ref option \<Rightarrow> ref option" where
  "usable_instance h i = (case i of None \<Rightarrow> None | Some r \<Rightarrow> if truthy (h r) then Some r else None)"

definition getInstance :: "env \<Rightarrow> ref \<Rightarrow> conn \<Rightarrow> state \<Rightarrow> (exn + ref) \<times> state" where
  "getInstance env clazz cn s =
     (case getattr_pyroInstancing (heap s) clazz of
        None \<Rightarrow> (Inl (mk_exn AttributeError ''_pyroInstancing''), s)
      | Some (instance_mode, instance_creator) \<Rightarrow>
          if instance_mode = ''single'' then
            (case usable_instance (heap s) (pyroInstances s clazz) of
               Some i \<Rightarrow> (Inr i, s)
             | None \<Rightarrow>
                 (case createInstance env clazz instance_creator s of
                    (Inl e, s1) \<Rightarrow> (Inl e, s1)
                  | (Inr i, s1) \<Rightarrow> (Inr i, s1\<lparr>pyroInstances := (pyroInstances s1)(clazz \<mapsto> i)\<rparr>)))
          else if instance_mode = ''session'' then
            (case usable_instance (heap s) (conn_pyroInstances s cn clazz) of
               Some i \<Rightarrow> (Inr i, s)
             | None \<Rightarrow>
                 (case createInstance env clazz instance_creator s of
                    (Inl e, s1) \<Rightarrow> (Inl e, s1)
                  | (Inr i, s1) \<Rightarrow>
                      (Inr i, s1\<lparr>conn_pyroInstances :=
                                 (conn_pyroInstances s1)(cn := (conn_pyroInstances s1 cn)(clazz \<mapsto> i))\<rparr>)))
          else if instance_mode = ''percall'' then createInstance env clazz instance_creator s
          else (Inl (mk_exn DaemonError ''invalid instancemode in registered class''), s))"

section \<open>Stream registry\<close>

text \<open>\<^verbatim>\<open>Daemon._streamResponse(data, client)\<close>.\<close>

definition streamResponse :: "env \<Rightarrow> pyval \<Rightarrow> conn \<Rightarrow> state \<Rightarrow> (exn + bool \<times> pyval) \<times> state" where
  "streamResponse env dat cl s =
     (case dat of
        VRef r \<Rightarrow>
          if is_iterator (pytype (heap s r)) then
            (if ITER_STREAMING (config env) then
               (if pytype (heap s r) \<in> lazy_dict_iterator_types
                then (Inl (mk_exn PyroError
                        ''won't serialize or stream lazy dict iterators, convert to list yourself''), s)
                else
                  (let stream_id = uuid_text (uuid4 env (uuids_drawn s))
                   in (Inr (True, VStr stream_id),
                       s\<lparr>uuids_drawn := Suc (uuids_drawn s),
                         streaming_responses :=
                           (streaming_responses s)(stream_id \<mapsto> (Some cl, clock s, 0, r))\<rparr>)))
             else (Inr (True, VNone), s))
          else (Inr (False, dat), s)
      | _ \<Rightarrow> (Inr (False, dat), s))"


definition close_stream :: "string \<Rightarrow> state \<Rightarrow> state" where
  "close_stream streamId s =
     (if streamId \<in> dom (streaming_responses s)
      then s\<lparr>streaming_responses := (streaming_responses s)(streamId := None)\<rparr> else s)"

section \<open>Exposed properties\<close>

definition unexposed_error :: "string \<Rightarrow> exn" where
  "unexposed_error propname =
     mk_exn AttributeError
       (''attempt to access unexposed or unknown remote attribute '' @ [CHR 0x27] @ propname @ [CHR 0x27])"

text \<open>
  \<^verbatim>\<open>get_exposed_property_value\<close> and \<^verbatim>\<open>set_exposed_property_value\<close>.
  \<^verbatim>\<open>getattr(obj.__class__, propname)\<close> raises \<^verbatim>\<open>AttributeError\<close> for an unknown
  name, and so does \<^verbatim>\<open>v.fget\<close> on a data descriptor that is not a property.
\<close>

definition get_exposed_property_value ::
  "env \<Rightarrow> ref \<Rightarrow> string \<Rightarrow> bool \<Rightarrow> state \<Rightarrow> (exn + pyval) \<times> state" where
  "get_exposed_property_value env obj propname only_exposed s =
     (case class_getattr (heap s) (cls (heap s obj)) propname of
        None \<Rightarrow> (Inl (mk_exn AttributeError propname), s)
      | Some (Property fget fset fdel) \<Rightarrow>
          (case fget of
             Some getter \<Rightarrow>
               if getattr_tag (pyroExposed getter) (\<not> only_exposed)
               then call env getter [VRef obj] [] s
               else (Inl (unexposed_error propname), s)
           | None \<Rightarrow> (Inl (unexposed_error propname), s))
      | Some Descriptor \<Rightarrow> (Inl (mk_exn AttributeError ''fget''), s)
      | Some _ \<Rightarrow> (Inl (unexposed_error propname), s))"

definition set_exposed_property_value ::
  "env \<Rightarrow> ref \<Rightarrow> string \<Rightarrow> pyval \<Rightarrow> bool \<Rightarrow> state \<Rightarrow> (exn + pyval) \<times> state" where
  "set_exposed_property_value env obj propname v only_exposed s =
     (case class_getattr (heap s) (cls (heap s obj)) propname of
        None \<Rightarrow> (Inl (mk_exn AttributeError propname), s)
      | Some (Property fget fset fdel) \<Rightarrow>
          (case (fset, first_some [fget, fset, fdel]) of
             (Some setter, Some pfunc) \<Rightarrow>
               if getattr_tag (pyroExposed pfunc) (\<not> only_exposed)
               then call env setter [VRef obj, v] [] s
               else (Inl (unexposed_error propname), s)
           | _ \<Rightarrow> (Inl (unexposed_error propname), s))
      | Some Descriptor \<Rightarrow> (Inl (mk_exn AttributeError ''fget''), s)
      | Some _ \<Rightarrow> (Inl (unexposed_error propname), s))"

section \<open>Replies\<close>

text \<open>\<^verbatim>\<open>"%d" % n\<close> and \<^verbatim>\<open>"%s" % type(e)\<close>.\<close>

fun str_nat :: "nat \<Rightarrow> string" where
  "str_nat n = (if n < 10 then [char_of (48 + n)] else str_nat (n div 10) @ [char_of (48 + n mod 10)])"

declare str_nat.simps [simp del]

definition str_int :: "int \<Rightarrow> string" where
  "str_int i = (if i < 0 then ''-'' @ str_nat (nat (- i)) else str_nat (nat i))"

fun class_name :: "exc_class \<Rightarrow> string" where
  "class_name StopIteration = ''StopIteration''"
| "class_name AttributeError = ''AttributeError''"
| "class_name IndexError = ''IndexError''"
| "class_name KeyError = ''KeyError''"
| "class_name NameError = ''NameError''"
| "class_name TypeError = ''TypeError''"
| "class_name ValueError = ''ValueError''"
| "class_name ZeroDivisionError = ''ZeroDivisionError''"
| "class_name PyroError = ''Pyro5.errors.PyroError''"
| "class_name CommunicationError = ''Pyro5.errors.CommunicationError''"
| "class_name ConnectionClosedError = ''Pyro5.errors.ConnectionClosedError''"
| "class_name ProtocolError = ''Pyro5.errors.ProtocolError''"
| "class_name SerializationError = ''Pyro5.errors.SerializationError''"
| "class_name SecurityError = ''Pyro5.errors.SecurityError''"
| "class_name DaemonError = ''Pyro5.errors.DaemonError''"
| "class_name (OtherException n) = n"

definition type_str :: "exc_class \<Rightarrow> string" where
  "type_str c = ''<class '' @ [CHR 0x27] @ class_name c @ [CHR 0x27] @ ''>''"

text \<open>\<^verbatim>\<open>Daemon.annotations()\<close>.\<close>

definition daemon_annotations :: "state \<Rightarrow> (string \<rightharpoonup> string)" where
  "daemon_annotations s =
     (case ctx_correlation_id (ctx s) of
        Some c \<Rightarrow> [''CORR'' \<mapsto> c]
      | None \<Rightarrow> Map.empty)"

text \<open>
  The message of the generic \<^verbatim>\<open>PyroError\<close> that replaces an exception that could not
  be serialized: \<open>xv\<close> is the serializer's exception, \<open>exc_value\<close> the original.
\<close>

definition serialization_failure_message :: "exn \<Rightarrow> exn \<Rightarrow> string" where
  "serialization_failure_message xv exc_value =
     ''Error serializing exception: '' @ exc_str xv @ ''. Original exception: '' @
     type_str (exc_type exc_value) @ '': '' @ exc_str exc_value"

text \<open>
  \<^verbatim>\<open>Daemon._sendExceptionResponse\<close>. It returns the exception that leaves it, if one
  does, and what it sent. \<^verbatim>\<open>connection.send\<close> is the event \<open>Sent\<close>; a failing
  transport is outside the model.
\<close>

definition sendExceptionResponse ::
  "env \<Rightarrow> conn \<Rightarrow> int \<Rightarrow> int \<Rightarrow> exn \<Rightarrow> string list option \<Rightarrow> int \<Rightarrow> (string \<rightharpoonup> string) \<Rightarrow> state
     \<Rightarrow> exn option \<times> event list" where
  "sendExceptionResponse env connection sq serializer_id exc_value tbinfo flgs anns s =
     (let exc1 = exc_value\<lparr>pyroTraceback := tbinfo\<rparr>
      in case get_serializer_by_id env serializer_id of
           Inl e \<Rightarrow> (Some e, [])
         | Inr ser \<Rightarrow>
             (case (case serializeData ser (VExc exc1) False of
                      Inr r \<Rightarrow> Inr r
                    | Inl xv \<Rightarrow>
                        serializeData ser
                          (VExc ((mk_exn PyroError (serialization_failure_message xv exc1))
                                   \<lparr>pyroTraceback := tbinfo\<rparr>)) False) of
                Inl e \<Rightarrow> (Some e, [])
              | Inr (bytes, compressed) \<Rightarrow>
                  (let flgs1 = flgs OR FLAGS_EXCEPTION;
                       flgs2 = (if compressed then flgs1 OR FLAGS_COMPRESSED else flgs1)
                   in (None,
                       [Sent connection
                          \<lparr>mtype = MSG_RESULT, mflags = flgs2, mseq = sq,
                           mserializer_id = serializer_id, mdata = bytes,
                           mannotations = daemon_annotations s ++ anns\<rparr>]))))"

section \<open>Dispatch\<close>

text \<open>
  The correlation id of a request: \<^verbatim>\<open>uuid.UUID(bytes=...)\<close> raises
  \<^verbatim>\<open>ValueError\<close> unless it gets 16 bytes. The context keeps the id's bytes.
\<close>

definition set_correlation_id :: "env \<Rightarrow> message \<Rightarrow> state \<Rightarrow> exn + state" where
  "set_correlation_id env msg s =
     (case mannotations msg ''CORR'' of
        Some b \<Rightarrow>
          if length b = 16 then Inr (s\<lparr>ctx := (ctx s)\<lparr>ctx_correlation_id := Some b\<rparr>\<rparr>)
          else Inl (mk_exn ValueError ''bytes is not a 16-char string'')
      | None \<Rightarrow>
          Inr (s\<lparr>ctx := (ctx s)\<lparr>ctx_correlation_id := Some (uuid_bytes (uuid4 env (uuids_drawn s)))\<rparr>,
                 uuids_drawn := Suc (uuids_drawn s)\<rparr>))"

text \<open>
  The batch loop of \<^verbatim>\<open>handleRequest\<close>: the items still to do, the list \<^verbatim>\<open>data\<close>
  so far. An item that is not a tuple \<^verbatim>\<open>(method, vargs, kwargs)\<close> fails to unpack,
  and like a failing \<^verbatim>\<open>util.getAttribute\<close> that is outside the loop's own
  \<^verbatim>\<open>try\<close>: the exception leaves the loop. So does an exception of
  \<^verbatim>\<open>futures._ExceptionWrapper\<close>, which is raised inside the handler.
\<close>

fun batch_loop ::
  "env \<Rightarrow> ref \<Rightarrow> pyval list \<Rightarrow> pyval list \<Rightarrow> state \<Rightarrow> (exn + pyval list) \<times> event list \<times> state" where
  "batch_loop env obj [] dat s = (Inr dat, [], s)"
| "batch_loop env obj (item # rest) dat s =
     (case item of
        VCall m vargs kwargs \<Rightarrow>
          (case getAttribute env s obj m of
             Inl e \<Rightarrow> (Inl e, [], s)
           | Inr f \<Rightarrow>
               (case invoke env f vargs kwargs s of
                  (Inl xv, s1) \<Rightarrow>
                    (case ExceptionWrapper env
                            (xv\<lparr>pyroTraceback :=
                                  Some (formatTraceback env (DETAILED_TRACEBACK (config env)) xv)\<rparr>) of
                       Inl e \<Rightarrow> (Inl e, [Invoked f vargs kwargs], s1)
                     | Inr wrapped \<Rightarrow> (Inr (dat @ [wrapped]), [Invoked f vargs kwargs], s1))
                | (Inr result, s1) \<Rightarrow>
                    (case batch_loop env obj rest (dat @ [result]) s1 of
                       (r, evs, s2) \<Rightarrow> (r, Invoked f vargs kwargs # evs, s2))))
      | _ \<Rightarrow> (Inl (mk_exn TypeError ''cannot unpack batch item''), [], s))"

text \<open>
  What the body of the \<^verbatim>\<open>try\<close> of \<^verbatim>\<open>handleRequest\<close> has reached: \<open>Reply d\<close>, the
  test of the oneway flag before the reply with \<^verbatim>\<open>data = d\<close>; \<open>Done\<close>, a
  \<^verbatim>\<open>return\<close>, or that test with no data after a oneway call was handed to a thread;
  \<open>Raised e\<close>, an exception on its way to the handler.
\<close>

datatype outcome = Reply pyval | Done | Raised exn

definition index_arg :: "pyval list \<Rightarrow> nat \<Rightarrow> exn + pyval" where
  "index_arg vargs i =
     (if i < length vargs then Inr (vargs ! i) else Inl (mk_exn IndexError ''index out of range''))"

definition stream_annotation :: "pyval \<Rightarrow> (string \<rightharpoonup> string)" where
  "stream_annotation d = (case d of VStr sid \<Rightarrow> if sid \<noteq> [] then [''STRM'' \<mapsto> sid] else Map.empty
                          | _ \<Rightarrow> Map.empty)"

text \<open>
  The branch \<^verbatim>\<open>normal single method call\<close>. The results are the outcome, the local
  \<^verbatim>\<open>isCallback\<close>, the events and the state. An attribute name that is not a string
  makes \<^verbatim>\<open>getattr\<close> raise \<^verbatim>\<open>TypeError\<close>.
\<close>

definition property_name :: "pyval \<Rightarrow> exn + string" where
  "property_name v = (case v of VStr n \<Rightarrow> Inr n
                      | _ \<Rightarrow> Inl (mk_exn TypeError ''attribute name must be string''))"

definition single_call ::
  "env \<Rightarrow> conn \<Rightarrow> message \<Rightarrow> serializer \<Rightarrow> ref \<Rightarrow> string \<Rightarrow> pyval list \<Rightarrow> (string \<times> pyval) list \<Rightarrow> state
     \<Rightarrow> outcome \<times> bool \<times> event list \<times> state" where
  "single_call env cn msg ser obj meth vargs kwargs s =
     (if meth = ''__getattr__'' then
        (case index_arg vargs 0 of
           Inl e \<Rightarrow> (Raised e, False, [], s)
         | Inr a0 \<Rightarrow>
             (case property_name a0 of
                Inl e \<Rightarrow> (Raised e, False, [], s)
              | Inr propname \<Rightarrow>
                  (case get_exposed_property_value env obj propname True s of
                     (Inl e, s1) \<Rightarrow> (Raised e, False, [], s1)
                   | (Inr d, s1) \<Rightarrow> (Reply d, False, [], s1))))
      else if meth = ''__setattr__'' then
        (case index_arg vargs 0 of
           Inl e \<Rightarrow> (Raised e, False, [], s)
         | Inr a0 \<Rightarrow>
             (case index_arg vargs 1 of
                Inl e \<Rightarrow> (Raised e, False, [], s)
              | Inr a1 \<Rightarrow>
                  (case property_name a0 of
                     Inl e \<Rightarrow> (Raised e, False, [], s)
                   | Inr propname \<Rightarrow>
                       (case set_exposed_property_value env obj propname a1 True s of
                          (Inl e, s1) \<Rightarrow> (Raised e, False, [], s1)
                        | (Inr d, s1) \<Rightarrow> (Reply d, False, [], s1)))))
      else
        (case getAttribute env s obj meth of
           Inl e \<Rightarrow> (Raised e, False, [], s)
         | Inr m \<Rightarrow>
             if mflags msg AND FLAGS_ONEWAY \<noteq> 0 \<and> ONEWAY_THREADED (config env)
             then (Done, False, [Spawned m vargs kwargs], s)
             else
               (let isCallback = (case m of Bound _ f \<Rightarrow> getattr_tag (pyroCallback f) False);
                    called = [Invoked m vargs kwargs]
                in case invoke env m vargs kwargs s of
                     (Inl e, s1) \<Rightarrow> (Raised e, isCallback, called, s1)
                   | (Inr d, s1) \<Rightarrow>
                       if mflags msg AND FLAGS_ONEWAY \<noteq> 0 then (Reply d, isCallback, called, s1)
                       else
                         (case streamResponse env d cn s1 of
                            (Inl e, s2) \<Rightarrow> (Raised e, isCallback, called, s2)
                          | (Inr (isStream, d2), s2) \<Rightarrow>
                              if isStream then
                                (case sendExceptionResponse env cn (mseq msg) (ser_id ser)
                                        (mk_exn ProtocolError ''result of call is an iterator'') None
                                        FLAGS_ITEMSTREAMRESULT (stream_annotation d2) s2 of
                                   (Some e, evs) \<Rightarrow> (Raised e, isCallback, called @ evs, s2)
                                 | (None, evs) \<Rightarrow> (Done, isCallback, called @ evs, s2))
                              else (Reply d2, isCallback, called, s2)))))"

text \<open>
  From \<^verbatim>\<open>obj = self.objectsById.get(objId)\<close> to the end of the outer \<^verbatim>\<open>if\<close>:
  the object, its instance if it is a class, the batch loop or the single call.
\<close>

definition dispatch ::
  "env \<Rightarrow> conn \<Rightarrow> message \<Rightarrow> serializer \<Rightarrow> string \<Rightarrow> string \<Rightarrow> pyval list \<Rightarrow> (string \<times> pyval) list \<Rightarrow> state
     \<Rightarrow> outcome \<times> bool \<times> bool \<times> event list \<times> state" where
  "dispatch env cn msg ser objId meth vargs kwargs s =
     (case objectsById s objId of
        None \<Rightarrow> (Raised (mk_exn DaemonError ''unknown object''), False, False, [], s)
      | Some registered \<Rightarrow>
          (case (if isclass (heap s registered) then getInstance env registered cn s
                 else (Inr registered, s)) of
             (Inl e, s1) \<Rightarrow> (Raised e, False, False, [], s1)
           | (Inr obj, s1) \<Rightarrow>
               if mflags msg AND FLAGS_BATCH \<noteq> 0 then
                 (case batch_loop env obj vargs [] s1 of
                    (Inl e, evs, s2) \<Rightarrow> (Raised e, False, False, evs, s2)
                  | (Inr dat, evs, s2) \<Rightarrow> (Reply (VList dat), True, False, evs, s2))
               else
                 (case single_call env cn msg ser obj meth vargs kwargs s1 of
                    (out, isCallback, evs, s2) \<Rightarrow> (out, False, isCallback, evs, s2))))"

text \<open>The end of the \<^verbatim>\<open>try\<close>: no reply to a oneway call, else the \<^verbatim>\<open>RESULT\<close> message.\<close>

definition send_result ::
  "env \<Rightarrow> conn \<Rightarrow> message \<Rightarrow> serializer \<Rightarrow> pyval \<Rightarrow> bool \<Rightarrow> state \<Rightarrow> exn option \<times> event list" where
  "send_result env cn msg ser dat wasBatched s =
     (if mflags msg AND FLAGS_ONEWAY \<noteq> 0 then (None, [])
      else case serializeData ser dat (COMPRESSION (config env)) of
             Inl e \<Rightarrow> (Some e, [])
           | Inr (bytes, compressed) \<Rightarrow>
               (let f1 = (if compressed then 0 OR FLAGS_COMPRESSED else 0);
                    response_flags = (if wasBatched then f1 OR FLAGS_BATCH else f1)
                in (None,
                    [Sent cn \<lparr>mtype = MSG_RESULT, mflags = response_flags, mseq = mseq msg,
                              mserializer_id = ser_id ser, mdata = bytes,
                              mannotations = daemon_annotations s\<rparr>])))"

text \<open>The six assignments to \<^verbatim>\<open>core.current_context\<close> after the call is deserialized.\<close>

definition enter_context :: "env \<Rightarrow> conn \<Rightarrow> message \<Rightarrow> state \<Rightarrow> state" where
  "enter_context env cn msg s =
     s\<lparr>ctx := (ctx s)\<lparr>ctx_client := Some cn,
                       ctx_client_sock_addr := getpeername env cn,
                       ctx_seq := mseq msg,
                       ctx_annotations := mannotations msg,
                       ctx_msg_flags := mflags msg,
                       ctx_serializer_id := mserializer_id msg\<rparr>\<rparr>"

text \<open>
  The body of the \<^verbatim>\<open>try\<close> of \<^verbatim>\<open>handleRequest\<close> for the message received: the
  exception on its way to the handler if there is one, \<^verbatim>\<open>isCallback\<close>, the events and
  the state.
\<close>

definition try_body ::
  "env \<Rightarrow> conn \<Rightarrow> message \<Rightarrow> state \<Rightarrow> exn option \<times> bool \<times> event list \<times> state" where
  "try_body env cn msg s =
     (case set_correlation_id env msg s of
        Inl e \<Rightarrow> (Some e, False, [], s)
      | Inr s1 \<Rightarrow>
          if mtype msg = MSG_PING then
            (None, False,
             [Sent cn \<lparr>mtype = MSG_PING, mflags = 0, mseq = mseq msg,
                       mserializer_id = mserializer_id msg, mdata = ''pong'',
                       mannotations = daemon_annotations s1\<rparr>], s1)
          else if mserializer_id msg \<notin> serializer_ids env then
            (Some (mk_exn SerializationError
                     (''message used serializer that is not accepted: '' @ str_int (mserializer_id msg))),
             False, [], s1)
          else
            (case get_serializer_by_id env (mserializer_id msg) of
               Inl e \<Rightarrow> (Some e, False, [], s1)
             | Inr ser \<Rightarrow>
                 (case deserializeCall ser (mdata msg) (mflags msg AND FLAGS_COMPRESSED \<noteq> 0) of
                    Inl e \<Rightarrow> (Some e, False, [], s1)
                  | Inr (objId, meth, vargs, kwargs) \<Rightarrow>
                      (let s2 = enter_context env cn msg s1
                       in case dispatch env cn msg ser objId meth vargs kwargs s2 of
                            (Raised e, wasBatched, isCallback, evs, s3) \<Rightarrow> (Some e, isCallback, evs, s3)
                          | (Done, wasBatched, isCallback, evs, s3) \<Rightarrow> (None, isCallback, evs, s3)
                          | (Reply dat, wasBatched, isCallback, evs, s3) \<Rightarrow>
                              (case send_result env cn msg ser dat wasBatched s3 of
                                 (r, evs2) \<Rightarrow> (r, isCallback, evs @ evs2, s3))))))"



section \<open>The claims' own words\<close>

text \<open>
  An argument of \<open>uriFor\<close> that is a non-string object and not currently registered: it
  lacks a \<^verbatim>\<open>_pyroId\<close>, or its id is absent from the registry.
\<close>

definition not_registered :: "state \<Rightarrow> target \<Rightarrow> bool" where
  "not_registered s x =
     (case x of
        TStr _ \<Rightarrow> False
      | TNone \<Rightarrow> True
      | TObj r \<Rightarrow> (case getattr_pyroId (heap s) r of
                     None \<Rightarrow> True
                   | Some i \<Rightarrow> objectsById s i = None))"

text \<open>
  The location of a URI: the NAT location when it is asked for and configured, the
  location the daemon is bound to otherwise.
\<close>

definition location_of :: "bool \<Rightarrow> state \<Rightarrow> string" where
  "location_of use_nat s =
     (case natLocationStr s of
        Some n \<Rightarrow> if use_nat \<and> n \<noteq> [] then n else locationStr s
      | None \<Rightarrow> locationStr s)"


text \<open>
  The class attribute of a name is a data descriptor whose setter exists and is exposed
  (the claim's condition for a remote set), and the condition that the code tests: it is
  a property with a setter, and the property's first accessor (the getter if it has one,
  the setter otherwise) carries the tag of \<^verbatim>\<open>expose\<close>.
\<close>

definition setter_exists_and_is_exposed :: "attr option \<Rightarrow> bool" where
  "setter_exists_and_is_exposed a =
     (case a of
        Some (Property fget (Some setter) fdel) \<Rightarrow> pyroExposed setter = Some True
      | _ \<Rightarrow> False)"

definition settable_property :: "attr option \<Rightarrow> bool" where
  "settable_property a =
     (case a of
        Some (Property fget (Some setter) fdel) \<Rightarrow>
          (case fget of
             Some getter \<Rightarrow> pyroExposed getter = Some True
           | None \<Rightarrow> pyroExposed setter = Some True)
      | _ \<Rightarrow> False)"

text \<open>
  The \<^verbatim>\<open>repr\<close> of an exception made from one message (a message without quotes or
  escapes): the class's \<^verbatim>\<open>__name__\<close> and the quoted message in parentheses. With it,
  the message that the claim gives the generic error: the inner failure, the original
  exception's type and the original exception's \<^verbatim>\<open>repr\<close>.
\<close>

definition exc_repr :: "exn \<Rightarrow> string" where
  "exc_repr e =
     rev (takeWhile (\<lambda>c. c \<noteq> CHR ''.'') (rev (class_name (exc_type e)))) @
     ''('' @ [CHR 0x27] @ exc_str e @ [CHR 0x27] @ '')''"

definition claimed_failure_message :: "exn \<Rightarrow> exn \<Rightarrow> string" where
  "claimed_failure_message xv exc_value =
     ''Error serializing exception: '' @ exc_str xv @ ''. Original exception: '' @
     type_str (exc_type exc_value) @ '': '' @ exc_repr exc_value"


text \<open>
  \<open>handleRequest\<close>, given the message \<open>msg\<close> on connection \<open>cn\<close> in state \<open>s\<close>, dispatches
  a call: the message is an \<^verbatim>\<open>INVOKE\<close> whose correlation id, serializer and payload
  are in order and whose object id is registered, so that the serializer \<open>ser\<close>, the
  instance \<open>obj\<close>, the method name and the arguments are at hand in state \<open>s3\<close>.
\<close>

definition reaches_dispatch ::
  "env \<Rightarrow> conn \<Rightarrow> message \<Rightarrow> state \<Rightarrow> serializer \<Rightarrow> ref \<Rightarrow> string \<Rightarrow> pyval list \<Rightarrow>
     (string \<times> pyval) list \<Rightarrow> state \<Rightarrow> bool" where
  "reaches_dispatch env cn msg s ser obj meth vargs kwargs s3 =
     (mtype msg \<noteq> MSG_PING \<and> mserializer_id msg \<in> serializer_ids env \<and>
      get_serializer_by_id env (mserializer_id msg) = Inr ser \<and>
      (\<exists>s1 objId registered.
         set_correlation_id env msg s = Inr s1 \<and>
         deserializeCall ser (mdata msg) (mflags msg AND FLAGS_COMPRESSED \<noteq> 0) =
           Inr (objId, meth, vargs, kwargs) \<and>
         objectsById (enter_context env cn msg s1) objId = Some registered \<and>
         (if isclass (heap (enter_context env cn msg s1) registered)
          then getInstance env registered cn (enter_context env cn msg s1)
          else (Inr registered, enter_context env cn msg s1)) = (Inr obj, s3)))"


section \<open>Example objects\<close>

text \<open>
  A small world for the concrete runs below: object 0 is \<^verbatim>\<open>object\<close>, object 1 a class
  \<^verbatim>\<open>Calc\<close> with exposed methods \<^verbatim>\<open>add\<close>, \<^verbatim>\<open>div\<close> and \<^verbatim>\<open>fire\<close> (oneway), a
  private method, two special methods, a property \<^verbatim>\<open>total\<close> whose getter carries the
  tag of \<^verbatim>\<open>expose\<close> and whose setter does not, and a plain class attribute; object 2
  is an instance of it. Object 3 is a class \<^verbatim>\<open>Bag\<close> with instancing mode
  \<^verbatim>\<open>single\<close>; object 5 is a generator, object 6 a live view \<^verbatim>\<open>d.keys()\<close> of a
  dict, and object 8 an iterator of a class of the user's.
\<close>

definition blank :: pyobj where
  "blank = \<lparr>isclass = False, cls = 0, supers = [], members = [], own_pyroId = None,
            own_pyroDaemon = False, own_pyroInstancing = None, truthy = True,
            pytype = other_type\<rparr>"

definition fn :: "string \<Rightarrow> bool option \<Rightarrow> func" where
  "fn n e = \<lparr>func_name = n, pyroExposed = e, pyroOneway = None, pyroCallback = None\<rparr>"

definition calc_class :: pyobj where
  "calc_class = blank\<lparr>isclass := True, supers := [0],
     members := [(''add'', Function (fn ''add'' (Some True))),
                 (''div'', Function (fn ''div'' (Some True))),
                 (''fire'', Function ((fn ''fire'' (Some True))\<lparr>pyroOneway := Some True\<rparr>)),
                 (''_secret'', Function (fn ''_secret'' (Some True))),
                 (''__eq__'', Function (fn ''__eq__'' (Some True))),
                 (''__len__'', Function (fn ''__len__'' None)),
                 (''total'', Property (Some (fn ''total'' (Some True))) (Some (fn ''set_total'' None)) None),
                 (''limit'', Data (VInt 10))]\<rparr>"

definition bag_class :: pyobj where
  "bag_class = blank\<lparr>isclass := True, supers := [0], own_pyroInstancing := Some (''single'', None)\<rparr>"

definition empty_context :: current_context where
  "empty_context = \<lparr>ctx_client = None, ctx_client_sock_addr = [], ctx_correlation_id = None,
     ctx_seq = 0, ctx_annotations = Map.empty, ctx_msg_flags = 0, ctx_serializer_id = 0\<rparr>"

definition demo_state :: state where
  "demo_state = \<lparr>heap = (\<lambda>_. blank)(1 := calc_class, 2 := blank\<lparr>cls := 1\<rparr>, 3 := bag_class,
                         5 := blank\<lparr>pytype := generator\<rparr>,
                         6 := blank\<lparr>pytype := dict_keys\<rparr>,
                         8 := blank\<lparr>pytype := iterator_class\<rparr>),
     objectsById = Map.empty, pyroInstances = Map.empty, conn_pyroInstances = (\<lambda>_. Map.empty),
     streaming_responses = Map.empty, locationStr = ''localhost:9090'', natLocationStr = None,
     exposed_member_cache = Map.empty, ctx = empty_context, clock = 0, uuids_drawn = 0,
     next_ref = 10\<rparr>"

text \<open>
  The environment of the concrete runs is the file as it stands: \<^verbatim>\<open>util\<close>,
  \<^verbatim>\<open>futures\<close> and \<^verbatim>\<open>URI\<close> are unbound. Its other collaborators: a serializer
  (id 1) that writes a value as text, cannot write an exception that is not a
  \<^verbatim>\<open>PyroError\<close>, and reads three fixed requests (the batch
  \<^verbatim>\<open>[(add,[1,2]), (div,[1,0]), (add,[3,4])]\<close>, the empty batch, a property set); the
  setter of \<^verbatim>\<open>total\<close>; a constructor that allocates the next object, false for an
  instance of class 3 (a class with \<^verbatim>\<open>__len__\<close>, empty when new); the generator 5,
  which yields one item, at clock 0, and is exhausted afterwards; and the iterator 8,
  whose \<^verbatim>\<open>__next__\<close> clears the daemon's \<^verbatim>\<open>streaming_responses\<close> and raises
  \<^verbatim>\<open>StopIteration\<close>.
\<close>

fun render :: "pyval \<Rightarrow> string" where
  "render VNone = ''None''"
| "render (VBool b) = (if b then ''True'' else ''False'')"
| "render (VInt i) = str_int i"
| "render (VStr s) = s"
| "render (VList xs) = ''['' @ concat (map (\<lambda>x. render x @ '','') xs) @ '']''"
| "render (VCall m a k) = m"
| "render (VRef r) = ''<object>''"
| "render (VExc e) = class_name (exc_type e) @ '': '' @ exc_str e"
| "render (VExcWrapper e) = ''!'' @ class_name (exc_type e) @ '': '' @ exc_str e"

definition demo_batch :: "pyval list" where
  "demo_batch = [VCall ''add'' [VInt 1, VInt 2] [], VCall ''div'' [VInt 1, VInt 0] [],
                 VCall ''add'' [VInt 3, VInt 4] []]"

definition demo_serializer :: serializer where
  "demo_serializer =
     \<lparr>ser_id = 1,
      serializeData = (\<lambda>v compress.
        case v of
          VExc e \<Rightarrow> if exc_type e = PyroError then Inr (render v, False)
                    else Inl (mk_exn TypeError ''unsupported serialized class'')
        | _ \<Rightarrow> Inr (render v, False)),
      deserializeCall = (\<lambda>b compressed.
        if b = ''batch'' then Inr (''calc'', [], demo_batch, [])
        else if b = ''empty'' then Inr (''calc'', [], [], [])
        else if b = ''set'' then Inr (''calc'', ''__setattr__'', [VStr ''total'', VInt 5], [])
        else Inl (mk_exn SerializationError ''bad data''))\<rparr>"

definition demo_call ::
  "func \<Rightarrow> pyval list \<Rightarrow> (string \<times> pyval) list \<Rightarrow> state \<Rightarrow> (exn + pyval) \<times> state" where
  "demo_call f args kwargs s =
     (case (func_name f, args) of
        (''set_total'', [_, v]) \<Rightarrow> (Inr VNone, s\<lparr>clock := clock s + 1\<rparr>)
      | _ \<Rightarrow> (Inl (mk_exn TypeError ''bad call''), s))"

definition demo_construct :: "ref \<Rightarrow> state \<Rightarrow> (exn + ref) \<times> state" where
  "demo_construct clazz s =
     (Inr (next_ref s),
      s\<lparr>heap := (heap s)(next_ref s := blank\<lparr>cls := clazz, truthy := (clazz \<noteq> 3)\<rparr>),
        next_ref := Suc (next_ref s)\<rparr>)"

definition demo_env :: env where
  "demo_env =
     \<lparr>config = \<lparr>ITER_STREAMING = True, ONEWAY_THREADED = True, COMPRESSION = False,
                 DETAILED_TRACEBACK = False\<rparr>,
      serializer_ids = {1},
      get_serializer_by_id = (\<lambda>i. if i = 1 then Inr demo_serializer
                                   else Inl (mk_exn SerializationError ''unsupported serializer'')),
      getAttribute = (\<lambda>s obj name. Inl (unbound ''util'')),
      ExceptionWrapper = (\<lambda>e. Inl (unbound ''futures'')),
      new_URI = (\<lambda>u. Inl (unbound ''URI'')),
      call = demo_call,
      construct = demo_construct,
      it_next = (\<lambda>r s. if r = 5 \<and> clock s < 1 then (Inr (VInt 0), s\<lparr>clock := clock s + 1\<rparr>)
                       else if r = 8
                         then (Inl (mk_exn StopIteration []), s\<lparr>streaming_responses := Map.empty\<rparr>)
                       else (Inl (mk_exn StopIteration []), s)),
      uuid4 = (\<lambda>n. \<lparr>uuid_bytes = replicate 16 (CHR ''u''), uuid_text = ''uuid-'' @ replicate n (CHR ''i''),
                      uuid_hex = ''hex'' @ replicate n (CHR ''i'')\<rparr>),
      formatTraceback = (\<lambda>detailed e. [''Traceback'']),
      getpeername = (\<lambda>c. ''client'')\<rparr>"



text \<open>
  The example state after \<^verbatim>\<open>register(obj, "calc")\<close> of the instance, object 2: the
  call stamps and stores the object and is left by the \<^verbatim>\<open>NameError\<close> of its last
  line.
\<close>

definition calc_registered :: state where
  "calc_registered = snd (register demo_env 2 (Some ''calc'') False demo_state)"

text \<open>
  Requests on connection 7, each with the flag \<^verbatim>\<open>BATCH\<close>: the batch
  \<^verbatim>\<open>[(add,[1,2]), (div,[1,0]), (add,[3,4])]\<close>, the empty batch, and the empty batch
  with the flag \<^verbatim>\<open>ONEWAY\<close> as well.
\<close>

definition batch_msg :: message where
  "batch_msg = \<lparr>mtype = MSG_INVOKE, mflags = 8, mseq = 42, mserializer_id = 1,
                mdata = ''batch'', mannotations = Map.empty\<rparr>"

definition empty_batch_msg :: message where
  "empty_batch_msg = batch_msg\<lparr>mdata := ''empty''\<rparr>"

definition oneway_empty_batch_msg :: message where
  "oneway_empty_batch_msg = empty_batch_msg\<lparr>mflags := 12\<rparr>"

definition div_error :: exn where
  "div_error = mk_exn ZeroDivisionError ''division by zero''"

text \<open>
  The state in which the example requests are dispatched: the correlation id is set, the
  context entered.
\<close>

definition in_request :: "message \<Rightarrow> state" where
  "in_request msg =
     enter_context demo_env 7 msg
       (calc_registered\<lparr>ctx := (ctx calc_registered)\<lparr>ctx_correlation_id := Some (replicate 16 (CHR ''u''))\<rparr>,
                        uuids_drawn := 1\<rparr>)"

section \<open>Exposed members are never private\<close>

lemma is_private_attribute_iff: "is_private_attribute n = private_name n"
  by (auto simp: is_private_attribute_def private_name_def)

lemma add_function_names:
  "exposed_names (add_function v oe m md) \<subseteq> insert m (exposed_names md)"
  by (auto simp: add_function_def exposed_names_def)

lemma member_step_names:
  "n \<in> exposed_names (member_step h c oe m md) \<Longrightarrow>
   n \<in> exposed_names md \<or> (n = m \<and> \<not> is_private_attribute m)"
  using add_function_names[of _ oe m md]
  by (auto simp: member_step_def exposed_names_def split: if_splits option.splits attr.splits)

lemma fold_member_step_names:
  "n \<in> exposed_names (fold (member_step h c oe) ms md) \<Longrightarrow>
   n \<in> exposed_names md \<or> \<not> is_private_attribute n"
proof (induction ms arbitrary: md)
  case Nil
  then show ?case by simp
next
  case (Cons m ms)
  from Cons.IH[of "member_step h c oe m md"] Cons.prems
  show ?case by (auto dest: member_step_names)
qed

lemma computed_names_public:
  "n \<in> exposed_names (fold (member_step h c oe) ms empty_metadata) \<Longrightarrow> \<not> private_name n"
  using fold_member_step_names[of n h c oe ms empty_metadata]
  by (simp add: exposed_names_def empty_metadata_def is_private_attribute_iff)

lemma demo_members:
  "fst (get_exposed_members 2 True False True demo_state) =
     \<lparr>methods = {''add'', ''div'', ''fire''}, oneway = {''fire''}, attrs = {''total''}\<rparr>"
  by (simp add: get_exposed_members_def demo_state_def calc_class_def blank_def fn_def
      dir_class_def member_step_def class_getattr_def add_function_def getattr_tag_def
      is_private_attribute_def private_dunder_methods_def startswith_def endswith_def
      empty_metadata_def Let_def insert_commute)

text \<open>
  C6. Whatever the object or class, \<open>only_exposed\<close>, \<open>as_lists\<close> and \<open>use_cache\<close>: no
  private name is in the methods, the oneway methods or the attributes that
  \<open>get_exposed_members\<close> returns, where a name is private when it is in the deny-list or
  starts with an underscore and is not a double-underscore-delimited name longer than 4.
  The cache is the module's own: it holds what earlier calls computed (\<open>cache_clean\<close>,
  true of the empty cache), and the call keeps it so.
\<close>

theorem exposed_members_never_private:
  assumes "cache_clean s"
  shows "(\<forall>n. private_name n \<longrightarrow>
            n \<notin> methods (fst (get_exposed_members obj only_exposed as_lists use_cache s)) \<and>
            n \<notin> oneway (fst (get_exposed_members obj only_exposed as_lists use_cache s)) \<and>
            n \<notin> attrs (fst (get_exposed_members obj only_exposed as_lists use_cache s))) \<and>
         cache_clean (snd (get_exposed_members obj only_exposed as_lists use_cache s))"
proof -
  let ?c = "if isclass (heap s obj) then obj else cls (heap s obj)"
  let ?k = "(?c, only_exposed, as_lists)"
  let ?fresh = "fold (member_step (heap s) ?c only_exposed) (dir_class (heap s) ?c) empty_metadata"
  have fresh: "\<forall>n \<in> exposed_names ?fresh. \<not> private_name n"
    using computed_names_public by blast
  show ?thesis
  proof (cases "if use_cache then exposed_member_cache s ?k else None")
    case None
    then have eq: "get_exposed_members obj only_exposed as_lists use_cache s =
        (?fresh, s\<lparr>exposed_member_cache := (exposed_member_cache s)(?k \<mapsto> ?fresh)\<rparr>)"
      by (simp add: get_exposed_members_def Let_def)
    have "cache_clean (s\<lparr>exposed_member_cache := (exposed_member_cache s)(?k \<mapsto> ?fresh)\<rparr>)"
      using assms fresh unfolding cache_clean_def by (auto split: if_splits)
    with fresh eq show ?thesis by (auto simp: exposed_names_def)
  next
    case (Some cached)
    then have eq: "get_exposed_members obj only_exposed as_lists use_cache s = (cached, s)"
      by (simp add: get_exposed_members_def Let_def)
    from Some have "exposed_member_cache s ?k = Some cached" by (auto split: if_splits)
    with assms have "\<forall>n \<in> exposed_names cached. \<not> private_name n"
      unfolding cache_clean_def by blast
    with assms eq show ?thesis by (auto simp: exposed_names_def)
  qed
qed

theorem exposed_members_never_private_witness:
  "cache_clean demo_state \<and> private_name ''_secret'' \<and> private_name ''__eq__'' \<and>
   ''_secret'' \<notin> methods (fst (get_exposed_members 2 True False True demo_state)) \<and>
   ''__eq__'' \<notin> methods (fst (get_exposed_members 2 True False True demo_state)) \<and>
   methods (fst (get_exposed_members 2 True False True demo_state)) = {''add'', ''div'', ''fire''}"
proof -
  have clean: "cache_clean demo_state"
    by (simp add: cache_clean_def demo_state_def)
  have p1: "private_name ''_secret''"
    by (simp add: private_name_def startswith_def endswith_def)
  have p2: "private_name ''__eq__''"
    by (simp add: private_name_def private_dunder_methods_def)
  from exposed_members_never_private[OF clean, of 2 True False True] p1 p2
  have "''_secret'' \<notin> methods (fst (get_exposed_members 2 True False True demo_state))"
    and "''__eq__'' \<notin> methods (fst (get_exposed_members 2 True False True demo_state))"
    by blast+
  with clean p1 p2 show ?thesis by (simp add: demo_members)
qed

section \<open>Object registry: URIs and unregistration\<close>

lemma calc_registered_eq:
  "calc_registered =
     demo_state\<lparr>heap := (heap demo_state)
                    (2 := (heap demo_state 2)\<lparr>own_pyroId := Some ''calc'', own_pyroDaemon := True\<rparr>),
                objectsById := [''calc'' \<mapsto> 2]\<rparr>"
  by (simp add: calc_registered_def register_def demo_state_def blank_def calc_class_def
      getattr_pyroId_def getattr_pyroInstancing_def search_path_def uriFor_def Let_def demo_env_def)

lemma calc_registered_facts:
  "objectsById calc_registered ''calc'' = Some 2"
  "own_pyroId (heap calc_registered 2) = Some ''calc''"
  "own_pyroDaemon (heap calc_registered 2)"
  "getattr_pyroId (heap calc_registered) 2 = Some ''calc''"
  "search_path (heap calc_registered) 2 = [2, 1, 0]"
  "locationStr calc_registered = ''localhost:9090''"
  "natLocationStr calc_registered = None"
  "own_pyroId (heap calc_registered 1) = None"
  "own_pyroId (heap calc_registered 0) = None"
  "own_pyroId (heap calc_registered (Suc 0)) = None"
  by (simp_all add: calc_registered_eq demo_state_def getattr_pyroId_def search_path_def
      blank_def calc_class_def)

text \<open>
  What \<open>uriFor\<close> does, whatever \<^verbatim>\<open>URI\<close> is bound to: it raises \<^verbatim>\<open>DaemonError\<close> for
  a non-string object that is not registered, and hands the text
  \<^verbatim>\<open>PYRO:<id>@<location>\<close> to \<^verbatim>\<open>URI\<close> otherwise.
\<close>

lemma uriFor_unregistered_object:
  "not_registered s x \<Longrightarrow>
   uriFor env x use_nat s = Inl (mk_exn DaemonError ''object isn't registered in this daemon'')"
  by (auto simp: uriFor_def not_registered_def Let_def split: target.splits option.splits)

lemma uriFor_string:
  "uriFor env (TStr i) use_nat s = new_URI env (''PYRO:'' @ i @ ''@'' @ location_of use_nat s)"
  by (auto simp: uriFor_def location_of_def Let_def split: option.splits)

lemma uriFor_registered_object:
  "getattr_pyroId (heap s) r = Some i \<Longrightarrow> objectsById s i = Some o' \<Longrightarrow>
   uriFor env (TObj r) use_nat s = new_URI env (''PYRO:'' @ i @ ''@'' @ location_of use_nat s)"
  by (auto simp: uriFor_def location_of_def Let_def domIff split: option.splits)

text \<open>
  C10 fails on the code: \<^verbatim>\<open>URI\<close> is bound nowhere in the file, so \<open>uriFor\<close> of a string,
  registered or not, and of a registered object raises \<^verbatim>\<open>NameError\<close> at its last
  line, where the claim and the docstring of \<^verbatim>\<open>uriFor\<close> say it returns the URI.
\<close>

theorem uriFor_of_a_string_raises_NameError:
  "uriFor demo_env (TStr ''ghost'') True calc_registered = Inl (unbound ''URI'') \<and>
   uriFor demo_env (TStr ''calc'') True calc_registered = Inl (unbound ''URI'') \<and>
   uriFor demo_env (TObj 2) True calc_registered = Inl (unbound ''URI'') \<and>
   exc_type (unbound ''URI'') = NameError"
  by (simp add: uriFor_string uriFor_registered_object[OF calc_registered_facts(4) calc_registered_facts(1)]
      demo_env_def unbound_def mk_exn_def)

lemma first_some_all_None:
  "(\<forall>x \<in> set xs. f x = None) \<Longrightarrow> first_some (map f xs) = None"
  by (induction xs) auto

lemma unregister_stamped_object:
  assumes "objectsById s i = Some r" and "i \<noteq> DAEMON_NAME"
    and "own_pyroId (heap s r) = Some i" and "own_pyroDaemon (heap s r)"
  shows "unregister (TObj r) s =
           (None, s\<lparr>objectsById := (objectsById s)(i := None),
                    heap := (heap s)(r := (heap s r)\<lparr>own_pyroId := None, own_pyroDaemon := False\<rparr>)\<rparr>)"
proof -
  have g: "getattr_pyroId (heap s) r = Some i"
    using assms(3) by (simp add: getattr_pyroId_def search_path_def)
  show ?thesis
    using assms g by (simp add: unregister_def unregister_id_def Let_def domIff)
qed

lemma unregister_registered_id:
  assumes "objectsById s i = Some r" and "i \<noteq> DAEMON_NAME"
  shows "unregister (TStr i) s = (None, s\<lparr>objectsById := (objectsById s)(i := None)\<rparr>)"
  using assms by (simp add: unregister_def unregister_id_def Let_def domIff)

text \<open>
  C3, as the claim states it, fails: \<open>unregister\<close> called with the id string removes the
  id and leaves both reverse links on the former target.
\<close>

theorem unregister_by_id_keeps_links:
  "objectsById calc_registered ''calc'' = Some 2 \<and>
   fst (unregister (TStr ''calc'') calc_registered) = None \<and>
   objectsById (snd (unregister (TStr ''calc'') calc_registered)) ''calc'' = None \<and>
   own_pyroId (heap (snd (unregister (TStr ''calc'') calc_registered)) 2) = Some ''calc'' \<and>
   own_pyroDaemon (heap (snd (unregister (TStr ''calc'') calc_registered)) 2)"
  by (simp add: unregister_def unregister_id_def calc_registered_facts DAEMON_NAME_def Let_def domIff)

text \<open>
  C3, amended. For a target registered under an id other than the daemon's own and
  stamped as \<open>register\<close> stamps it: \<open>unregister\<close> called with the object removes the id from
  the registry and deletes \<^verbatim>\<open>_pyroId\<close> and \<^verbatim>\<open>_pyroDaemon\<close> from the object, and
  changes nothing else; called with the id string it removes the id from the registry
  and changes nothing else, so the object keeps both attributes.
\<close>

theorem unregister_removes_and_scrubs:
  assumes "objectsById s i = Some r" and "i \<noteq> DAEMON_NAME"
    and "own_pyroId (heap s r) = Some i" and "own_pyroDaemon (heap s r)"
  shows "unregister (TObj r) s =
           (None, s\<lparr>objectsById := (objectsById s)(i := None),
                    heap := (heap s)(r := (heap s r)\<lparr>own_pyroId := None, own_pyroDaemon := False\<rparr>)\<rparr>) \<and>
         unregister (TStr i) s = (None, s\<lparr>objectsById := (objectsById s)(i := None)\<rparr>)"
  using unregister_stamped_object[OF assms] unregister_registered_id[OF assms(1,2)] by simp

theorem unregister_removes_and_scrubs_witness:
  "objectsById calc_registered ''calc'' = Some 2 \<and> ''calc'' \<noteq> DAEMON_NAME \<and>
   own_pyroId (heap calc_registered 2) = Some ''calc'' \<and> own_pyroDaemon (heap calc_registered 2) \<and>
   objectsById (snd (unregister (TObj 2) calc_registered)) ''calc'' = None \<and>
   own_pyroId (heap (snd (unregister (TObj 2) calc_registered)) 2) = None \<and>
   \<not> own_pyroDaemon (heap (snd (unregister (TObj 2) calc_registered)) 2) \<and>
   heap (snd (unregister (TStr ''calc'') calc_registered)) = heap calc_registered"
proof -
  have n: "''calc'' \<noteq> DAEMON_NAME" by (simp add: DAEMON_NAME_def)
  from unregister_removes_and_scrubs[OF calc_registered_facts(1) n calc_registered_facts(2,3)]
  show ?thesis using n by (simp add: calc_registered_facts)
qed

text \<open>
  C2, as the claim states it, fails: the second \<open>unregister\<close> of an object that the first
  one unregistered raises \<^verbatim>\<open>DaemonError\<close>.
\<close>

theorem unregister_object_twice_raises:
  "fst (unregister (TObj 2) calc_registered) = None \<and>
   fst (unregister (TObj 2) (snd (unregister (TObj 2) calc_registered))) =
     Some (mk_exn DaemonError ''object isn't registered'')"
  by (simp add: unregister_def unregister_id_def DAEMON_NAME_def Let_def domIff
      getattr_pyroId_def search_path_def calc_registered_eq demo_state_def blank_def calc_class_def)

lemma unregister_id_None_twice:
  "unregister_id i None (snd (unregister_id i None s)) = (None, snd (unregister_id i None s))"
  by (simp add: unregister_id_def Let_def domIff)

text \<open>
  C2, amended. For every object-id string, whatever the state, a second \<open>unregister\<close> with
  the same string raises nothing and leaves the state as the first call left it. For an
  object that the first call unregistered (it was registered under an id other than the
  daemon's own and stamped as \<open>register\<close> stamps it, and no class of it carries a
  \<^verbatim>\<open>_pyroId\<close>), the second call raises \<^verbatim>\<open>DaemonError\<close> and leaves the state as the
  first call left it.
\<close>

theorem unregister_twice:
  "unregister (TStr i) (snd (unregister (TStr i) s)) = (None, snd (unregister (TStr i) s)) \<and>
   (objectsById s j = Some r \<and> j \<noteq> DAEMON_NAME \<and> own_pyroId (heap s r) = Some j \<and>
    own_pyroDaemon (heap s r) \<and>
    (\<forall>k \<in> set (tl (search_path (heap s) r)). own_pyroId (heap s k) = None) \<longrightarrow>
    unregister (TObj r) (snd (unregister (TObj r) s)) =
      (Some (mk_exn DaemonError ''object isn't registered''), snd (unregister (TObj r) s)))"
proof (intro conjI impI)
  show "unregister (TStr i) (snd (unregister (TStr i) s)) = (None, snd (unregister (TStr i) s))"
    by (simp add: unregister_def unregister_id_None_twice)
next
  assume h: "objectsById s j = Some r \<and> j \<noteq> DAEMON_NAME \<and> own_pyroId (heap s r) = Some j \<and>
    own_pyroDaemon (heap s r) \<and>
    (\<forall>k \<in> set (tl (search_path (heap s) r)). own_pyroId (heap s k) = None)"
  let ?s' = "s\<lparr>objectsById := (objectsById s)(j := None),
                heap := (heap s)(r := (heap s r)\<lparr>own_pyroId := None, own_pyroDaemon := False\<rparr>)\<rparr>"
  from h unregister_stamped_object[of s j r]
  have first: "unregister (TObj r) s = (None, ?s')" by simp
  have sp: "search_path (heap ?s') r = search_path (heap s) r"
    by (auto simp: search_path_def)
  have "\<forall>k \<in> set (search_path (heap s) r). own_pyroId (heap ?s' k) = None"
    using h by (auto simp: search_path_def split: if_splits)
  then have "first_some (map (\<lambda>k. own_pyroId (heap ?s' k)) (search_path (heap s) r)) = None"
    by (rule first_some_all_None)
  then have "getattr_pyroId (heap ?s') r = None"
    by (simp only: getattr_pyroId_def sp)
  then have second:
    "unregister (TObj r) ?s' = (Some (mk_exn DaemonError ''object isn't registered''), ?s')"
    by (simp add: unregister_def)
  have "snd (unregister (TObj r) s) = ?s'"
    by (simp only: first snd_conv)
  with second show "unregister (TObj r) (snd (unregister (TObj r) s)) =
      (Some (mk_exn DaemonError ''object isn't registered''), snd (unregister (TObj r) s))"
    by (simp only:)
qed

theorem unregister_twice_witness:
  "unregister (TStr ''calc'') (snd (unregister (TStr ''calc'') calc_registered)) =
     (None, snd (unregister (TStr ''calc'') calc_registered)) \<and>
   objectsById calc_registered ''calc'' = Some 2 \<and> ''calc'' \<noteq> DAEMON_NAME \<and>
   own_pyroId (heap calc_registered 2) = Some ''calc'' \<and> own_pyroDaemon (heap calc_registered 2) \<and>
   tl (search_path (heap calc_registered) 2) = [1, 0] \<and>
   own_pyroId (heap calc_registered 1) = None \<and> own_pyroId (heap calc_registered 0) = None \<and>
   unregister (TObj 2) (snd (unregister (TObj 2) calc_registered)) =
     (Some (mk_exn DaemonError ''object isn't registered''), snd (unregister (TObj 2) calc_registered))"
proof -
  have n: "''calc'' \<noteq> DAEMON_NAME" by (simp add: DAEMON_NAME_def)
  from unregister_twice[of "''calc''" calc_registered "''calc''" 2] n
  show ?thesis by (simp add: calc_registered_facts)
qed

section \<open>Stream registry: registration and the next item\<close>


text \<open>
  A value that is not an iterator (by the test of the first line of \<open>streamResponse\<close>)
  is no stream, whatever its type: it is handed back as ordinary data. No iterator has
  one of the listed types, so the refusal in \<open>streamResponse\<close> is not reached.
\<close>

lemma streamResponse_not_iterator:
  "\<not> is_iterator (pytype (heap s r)) \<Longrightarrow>
   streamResponse env (VRef r) cl s = (Inr (False, VRef r), s)"
  by (simp add: streamResponse_def)

lemma iterator_types_not_listed: "is_iterator t \<Longrightarrow> t \<notin> lazy_dict_iterator_types"
  by (cases t) (simp_all add: lazy_dict_iterator_types_def)

lemma streamResponse_never_refuses: "fst (streamResponse env dat cl s) \<noteq> Inl e"
  by (auto simp: streamResponse_def Let_def iterator_types_not_listed split: pyval.splits)









section \<open>Instance manager: instancing mode single\<close>

lemma single_instance_reused:
  assumes "getattr_pyroInstancing (heap s) clazz = Some (''single'', creator)"
    and "pyroInstances s clazz = Some i" and "truthy (heap s i)"
  shows "getInstance env clazz cn s = (Inr i, s)"
  using assms by (simp add: getInstance_def usable_instance_def)

lemma bag_first:
  "getInstance demo_env 3 7 demo_state =
     (Inr 10, demo_state\<lparr>heap := (heap demo_state)(10 := blank\<lparr>cls := 3, truthy := False\<rparr>),
                         next_ref := 11, pyroInstances := [3 \<mapsto> 10]\<rparr>)"
  by (simp add: getInstance_def getattr_pyroInstancing_def search_path_def demo_state_def
      bag_class_def blank_def usable_instance_def createInstance_def demo_env_def demo_construct_def)

text \<open>
  C9 fails on the code for a class whose instances are false (a class with
  \<^verbatim>\<open>__len__\<close> or \<^verbatim>\<open>__bool__\<close>): class 3 is registered with mode \<^verbatim>\<open>single\<close>,
  the first call creates and stores object 10, and the second call, finding the stored
  instance false, creates object 11.
\<close>

theorem single_instance_not_kept_when_false:
  "getattr_pyroInstancing (heap demo_state) 3 = Some (''single'', None) \<and>
   fst (getInstance demo_env 3 7 demo_state) = Inr 10 \<and>
   pyroInstances (snd (getInstance demo_env 3 7 demo_state)) 3 = Some 10 \<and>
   fst (getInstance demo_env 3 7 (snd (getInstance demo_env 3 7 demo_state))) = Inr 11"
  apply (simp add: bag_first)
  apply (simp add: getInstance_def getattr_pyroInstancing_def search_path_def demo_state_def
      bag_class_def blank_def usable_instance_def createInstance_def demo_env_def demo_construct_def)
  done

section \<open>Property set through the dispatcher\<close>

lemma first_accessor:
  "first_some [fget, Some setter, fdel] = Some (case fget of Some getter \<Rightarrow> getter | None \<Rightarrow> setter)"
  by (cases fget) simp_all

lemma settable_property_Property:
  "settable_property (Some (Property fget (Some setter) fdel)) =
     getattr_tag (pyroExposed (case fget of Some getter \<Rightarrow> getter | None \<Rightarrow> setter)) False"
  by (cases fget; cases "pyroExposed setter")
     (auto simp: settable_property_def getattr_tag_def split: option.splits)

lemma set_when_settable:
  assumes "class_getattr (heap s) (cls (heap s obj)) propname = Some (Property fget (Some setter) fdel)"
    and "settable_property (Some (Property fget (Some setter) fdel))"
  shows "set_exposed_property_value env obj propname v True s = call env setter [VRef obj, v] [] s"
  using assms(2) unfolding settable_property_Property
  by (simp add: set_exposed_property_value_def assms(1) first_accessor)

lemma set_when_not_settable:
  assumes "\<not> settable_property (class_getattr (heap s) (cls (heap s obj)) propname)"
  shows "\<exists>e. set_exposed_property_value env obj propname v True s = (Inl e, s) \<and>
             exc_type e = AttributeError"
proof (cases "class_getattr (heap s) (cls (heap s obj)) propname")
  case None
  then show ?thesis by (simp add: set_exposed_property_value_def mk_exn_def)
next
  case (Some a)
  show ?thesis
  proof (cases a)
    case (Property fget fset fdel)
    show ?thesis
    proof (cases fset)
      case None
      with Some Property show ?thesis
        by (simp add: set_exposed_property_value_def mk_exn_def unexposed_error_def
            split: option.splits)
    next
      case (Some setter)
      with assms \<open>class_getattr _ _ _ = Some a\<close> Property
      have "\<not> getattr_tag (pyroExposed (case fget of Some getter \<Rightarrow> getter | None \<Rightarrow> setter)) False"
        by (simp add: settable_property_Property)
      with Some \<open>class_getattr _ _ _ = Some a\<close> Property show ?thesis
        by (simp add: set_exposed_property_value_def first_accessor mk_exn_def unexposed_error_def)
    qed
  qed (use Some in \<open>simp_all add: set_exposed_property_value_def mk_exn_def unexposed_error_def\<close>)
qed

text \<open>
  C7, as the claim states it, fails: the property \<^verbatim>\<open>total\<close> of the example class has
  an exposed getter and a setter that is not exposed, and the remote set calls the setter.
\<close>

theorem set_through_unexposed_setter:
  "class_getattr (heap demo_state) (cls (heap demo_state 2)) ''total'' =
     Some (Property (Some (fn ''total'' (Some True))) (Some (fn ''set_total'' None)) None) \<and>
   \<not> setter_exists_and_is_exposed (class_getattr (heap demo_state) (cls (heap demo_state 2)) ''total'') \<and>
   set_exposed_property_value demo_env 2 ''total'' (VInt 5) True demo_state =
     call demo_env (fn ''set_total'' None) [VRef 2, VInt 5] [] demo_state \<and>
   set_exposed_property_value demo_env 2 ''total'' (VInt 5) True demo_state =
     (Inr VNone, demo_state\<lparr>clock := 1\<rparr>)"
proof -
  have a: "class_getattr (heap demo_state) (cls (heap demo_state 2)) ''total'' =
     Some (Property (Some (fn ''total'' (Some True))) (Some (fn ''set_total'' None)) None)"
    by (simp add: class_getattr_def demo_state_def blank_def calc_class_def)
  have c: "call demo_env (fn ''set_total'' None) [VRef 2, VInt 5] [] demo_state =
     (Inr VNone, demo_state\<lparr>clock := 1\<rparr>)"
    by (simp add: demo_env_def demo_call_def fn_def demo_state_def)
  have b: "set_exposed_property_value demo_env 2 ''total'' (VInt 5) True demo_state =
     call demo_env (fn ''set_total'' None) [VRef 2, VInt 5] [] demo_state"
    by (simp add: set_exposed_property_value_def a getattr_tag_def) (simp add: fn_def)
  show ?thesis
    by (simp only: a b c) (simp add: setter_exists_and_is_exposed_def fn_def)
qed

text \<open>
  C7, amended. With the method name \<^verbatim>\<open>__setattr__\<close> and arguments that start with a
  name and a value, the dispatcher's result is that of
  \<open>set_exposed_property_value\<close>. That calls the property's setter on the target and the
  value if and only if the class attribute of the name is a property with a setter
  whose first accessor (the getter if it has one, the setter otherwise) carries the tag
  of \<^verbatim>\<open>expose\<close>; otherwise it raises \<^verbatim>\<open>AttributeError\<close> and changes nothing.
\<close>

theorem setattr_dispatch:
  "(settable_property (class_getattr (heap s) (cls (heap s obj)) propname) \<longrightarrow>
      (\<exists>fget setter fdel.
         class_getattr (heap s) (cls (heap s obj)) propname = Some (Property fget (Some setter) fdel) \<and>
         set_exposed_property_value env obj propname v True s = call env setter [VRef obj, v] [] s)) \<and>
   (\<not> settable_property (class_getattr (heap s) (cls (heap s obj)) propname) \<longrightarrow>
      (\<exists>e. set_exposed_property_value env obj propname v True s = (Inl e, s) \<and>
           exc_type e = AttributeError)) \<and>
   single_call env cn msg ser obj ''__setattr__'' (VStr propname # v # others) kwargs s =
     (case set_exposed_property_value env obj propname v True s of
        (Inl e, s1) \<Rightarrow> (Raised e, False, [], s1)
      | (Inr d, s1) \<Rightarrow> (Reply d, False, [], s1))"
proof (intro conjI impI)
  assume "settable_property (class_getattr (heap s) (cls (heap s obj)) propname)"
  then obtain fget setter fdel where
    a: "class_getattr (heap s) (cls (heap s obj)) propname = Some (Property fget (Some setter) fdel)"
    by (auto simp: settable_property_def split: option.splits attr.splits)
  with \<open>settable_property _\<close> set_when_settable[OF a]
  show "\<exists>fget setter fdel.
         class_getattr (heap s) (cls (heap s obj)) propname = Some (Property fget (Some setter) fdel) \<and>
         set_exposed_property_value env obj propname v True s = call env setter [VRef obj, v] [] s"
    by auto
next
  assume "\<not> settable_property (class_getattr (heap s) (cls (heap s obj)) propname)"
  then show "\<exists>e. set_exposed_property_value env obj propname v True s = (Inl e, s) \<and>
           exc_type e = AttributeError"
    by (rule set_when_not_settable)
next
  show "single_call env cn msg ser obj ''__setattr__'' (VStr propname # v # others) kwargs s =
     (case set_exposed_property_value env obj propname v True s of
        (Inl e, s1) \<Rightarrow> (Raised e, False, [], s1)
      | (Inr d, s1) \<Rightarrow> (Reply d, False, [], s1))"
    by (simp add: single_call_def index_arg_def property_name_def)
qed


theorem setattr_dispatch_witness:
  "settable_property (class_getattr (heap demo_state) (cls (heap demo_state 2)) ''total'') \<and>
   set_exposed_property_value demo_env 2 ''total'' (VInt 5) True demo_state =
     (Inr VNone, demo_state\<lparr>clock := 1\<rparr>) \<and>
   \<not> settable_property (class_getattr (heap demo_state) (cls (heap demo_state 2)) ''limit'') \<and>
   (\<exists>e. set_exposed_property_value demo_env 2 ''limit'' (VInt 5) True demo_state = (Inl e, demo_state) \<and>
        exc_type e = AttributeError) \<and>
   single_call demo_env 7 batch_msg demo_serializer 2 ''__setattr__'' [VStr ''total'', VInt 5] [] demo_state =
     (Reply VNone, False, [], demo_state\<lparr>clock := 1\<rparr>)"
proof -
  have a: "class_getattr (heap demo_state) (cls (heap demo_state 2)) ''total'' =
     Some (Property (Some (fn ''total'' (Some True))) (Some (fn ''set_total'' None)) None)"
    by (simp add: class_getattr_def demo_state_def blank_def calc_class_def)
  have b: "class_getattr (heap demo_state) (cls (heap demo_state 2)) ''limit'' = Some (Data (VInt 10))"
    by (simp add: class_getattr_def demo_state_def blank_def calc_class_def)
  have st: "settable_property (class_getattr (heap demo_state) (cls (heap demo_state 2)) ''total'')"
    by (simp add: a settable_property_def fn_def)
  have nl: "\<not> settable_property (class_getattr (heap demo_state) (cls (heap demo_state 2)) ''limit'')"
    by (simp add: b settable_property_def)
  have c: "call demo_env (fn ''set_total'' None) [VRef 2, VInt 5] [] demo_state =
     (Inr VNone, demo_state\<lparr>clock := 1\<rparr>)"
    by (simp add: demo_env_def demo_call_def fn_def demo_state_def)
  from setattr_dispatch[of demo_state 2 "''total''" demo_env "VInt 5"] st a c
  have s: "set_exposed_property_value demo_env 2 ''total'' (VInt 5) True demo_state =
     (Inr VNone, demo_state\<lparr>clock := 1\<rparr>)"
    by auto
  from setattr_dispatch[of demo_state 2 "''limit''" demo_env "VInt 5"] nl
  have l: "\<exists>e. set_exposed_property_value demo_env 2 ''limit'' (VInt 5) True demo_state = (Inl e, demo_state) \<and>
        exc_type e = AttributeError"
    by blast
  from setattr_dispatch[of demo_state 2 "''total''" demo_env "VInt 5" 7 batch_msg demo_serializer "[]" "[]"] s
  have d: "single_call demo_env 7 batch_msg demo_serializer 2 ''__setattr__'' [VStr ''total'', VInt 5] [] demo_state =
     (Reply VNone, False, [], demo_state\<lparr>clock := 1\<rparr>)"
    by simp
  from st s nl l d show ?thesis by blast
qed

section \<open>The reply for an exception that cannot be serialized\<close>

lemma or_and_self: "((f::int) OR b) AND b = b"
  by (simp add: bit_eq_iff bit_and_iff bit_or_iff) blast

lemma exception_flag_set: "(f OR FLAGS_EXCEPTION) AND FLAGS_EXCEPTION \<noteq> 0"
  by (simp add: or_and_self FLAGS_EXCEPTION_def)

lemma exception_flag_set2: "((f OR FLAGS_EXCEPTION) OR FLAGS_COMPRESSED) AND FLAGS_EXCEPTION \<noteq> 0"
proof -
  have "(f OR FLAGS_EXCEPTION) OR FLAGS_COMPRESSED = (f OR FLAGS_COMPRESSED) OR FLAGS_EXCEPTION"
    by (simp add: ac_simps)
  with exception_flag_set[of "f OR FLAGS_COMPRESSED"] show ?thesis by simp
qed

lemma demo_serializer_facts:
  "get_serializer_by_id demo_env 1 = Inr demo_serializer"
  "serializeData demo_serializer (VExc (div_error\<lparr>pyroTraceback := tb\<rparr>)) False =
     Inl (mk_exn TypeError ''unsupported serialized class'')"
  "serializeData demo_serializer (VExc ((mk_exn PyroError m)\<lparr>pyroTraceback := tb\<rparr>)) False =
     Inr (''Pyro5.errors.PyroError: '' @ m, False)"
  by (simp_all add: demo_env_def demo_serializer_def div_error_def mk_exn_def)

text \<open>
  C8, as the claim states it, fails: the message of the generic error ends with the
  \<^verbatim>\<open>str\<close> of the original exception (\<^verbatim>\<open>division by zero\<close>), not with its
  \<^verbatim>\<open>repr\<close> (\<^verbatim>\<open>ZeroDivisionError('division by zero')\<close>).
\<close>

theorem failure_message_uses_str:
  "sendExceptionResponse demo_env 7 42 1 div_error (Some [''Traceback'']) 0 Map.empty demo_state =
     (None, [Sent 7 \<lparr>mtype = MSG_RESULT, mflags = 1, mseq = 42, mserializer_id = 1,
                     mdata = ''Pyro5.errors.PyroError: '' @
                       serialization_failure_message (mk_exn TypeError ''unsupported serialized class'') div_error,
                     mannotations = Map.empty\<rparr>]) \<and>
   serialization_failure_message (mk_exn TypeError ''unsupported serialized class'') div_error =
     ''Error serializing exception: unsupported serialized class. Original exception: <class '' @ [CHR 0x27] @ ''ZeroDivisionError'' @ [CHR 0x27] @ ''>: division by zero'' \<and>
   exc_repr div_error = ''ZeroDivisionError('' @ [CHR 0x27] @ ''division by zero'' @ [CHR 0x27] @ '')'' \<and>
   serialization_failure_message (mk_exn TypeError ''unsupported serialized class'') div_error \<noteq>
     claimed_failure_message (mk_exn TypeError ''unsupported serialized class'') div_error"
proof -
  have m: "serialization_failure_message (mk_exn TypeError ''unsupported serialized class'') div_error =
     ''Error serializing exception: unsupported serialized class. Original exception: <class '' @ [CHR 0x27] @ ''ZeroDivisionError'' @ [CHR 0x27] @ ''>: division by zero''"
    by (simp add: serialization_failure_message_def mk_exn_def div_error_def type_str_def)
  have r: "exc_repr div_error = ''ZeroDivisionError('' @ [CHR 0x27] @ ''division by zero'' @ [CHR 0x27] @ '')''"
    by (simp add: exc_repr_def div_error_def mk_exn_def)
  have c: "claimed_failure_message (mk_exn TypeError ''unsupported serialized class'') div_error =
     ''Error serializing exception: unsupported serialized class. Original exception: <class '' @ [CHR 0x27] @ ''ZeroDivisionError'' @ [CHR 0x27] @ ''>: ZeroDivisionError('' @ [CHR 0x27] @ ''division by zero'' @ [CHR 0x27] @ '')''"
    by (simp add: claimed_failure_message_def r) (simp add: mk_exn_def div_error_def type_str_def)
  have s: "sendExceptionResponse demo_env 7 42 1 div_error (Some [''Traceback'']) 0 Map.empty demo_state =
     (None, [Sent 7 \<lparr>mtype = MSG_RESULT, mflags = 1, mseq = 42, mserializer_id = 1,
                     mdata = ''Pyro5.errors.PyroError: '' @
                       serialization_failure_message (mk_exn TypeError ''unsupported serialized class'') div_error,
                     mannotations = Map.empty\<rparr>])"
    apply (simp add: sendExceptionResponse_def demo_serializer_facts Let_def FLAGS_EXCEPTION_def)
    apply (simp add: daemon_annotations_def demo_state_def empty_context_def
        serialization_failure_message_def div_error_def mk_exn_def)
    done
  have ne: "serialization_failure_message (mk_exn TypeError ''unsupported serialized class'') div_error \<noteq>
     claimed_failure_message (mk_exn TypeError ''unsupported serialized class'') div_error"
    by (simp only: m c) simp
  from s m r ne show ?thesis by (simp only:) simp
qed

text \<open>
  C8, amended. If serializing the exception fails with \<open>inner\<close>, and the generic
  \<^verbatim>\<open>PyroError\<close> whose message is
  \<^verbatim>\<open>Error serializing exception: <str of inner>. Original exception: <type>: <str of the original>\<close>
  can be serialized, then \<open>sendExceptionResponse\<close> sends exactly one message: a
  \<^verbatim>\<open>RESULT\<close> with the request's sequence number, the flag \<^verbatim>\<open>EXCEPTION\<close> set and
  the serialized generic error as its payload.
\<close>

theorem exception_reply_replaced:
  assumes "get_serializer_by_id env serializer_id = Inr ser"
    and "serializeData ser (VExc (exc_value\<lparr>pyroTraceback := tbinfo\<rparr>)) False = Inl inner"
    and "serializeData ser
           (VExc ((mk_exn PyroError
                     (''Error serializing exception: '' @ exc_str inner @
                      ''. Original exception: '' @ type_str (exc_type exc_value) @ '': '' @
                      exc_str exc_value))\<lparr>pyroTraceback := tbinfo\<rparr>)) False = Inr (bytes, compressed)"
  shows "\<exists>reply. sendExceptionResponse env cn sq serializer_id exc_value tbinfo flgs anns s =
                   (None, [Sent cn reply]) \<and>
                 mtype reply = MSG_RESULT \<and> mdata reply = bytes \<and> mseq reply = sq \<and>
                 mflags reply AND FLAGS_EXCEPTION \<noteq> 0"
  using assms
  by (simp add: sendExceptionResponse_def serialization_failure_message_def Let_def
      exception_flag_set exception_flag_set2)

theorem exception_reply_replaced_witness:
  "get_serializer_by_id demo_env 1 = Inr demo_serializer \<and>
   serializeData demo_serializer (VExc (div_error\<lparr>pyroTraceback := Some [''Traceback'']\<rparr>)) False =
     Inl (mk_exn TypeError ''unsupported serialized class'') \<and>
   (\<exists>reply. sendExceptionResponse demo_env 7 42 1 div_error (Some [''Traceback'']) 0 Map.empty demo_state =
              (None, [Sent 7 reply]) \<and>
            mtype reply = MSG_RESULT \<and> mseq reply = 42 \<and> mflags reply AND FLAGS_EXCEPTION \<noteq> 0 \<and>
            mdata reply = ''Pyro5.errors.PyroError: Error serializing exception: unsupported serialized class. Original exception: <class '' @ [CHR 0x27] @ ''ZeroDivisionError'' @ [CHR 0x27] @ ''>: division by zero'')"
proof -
  let ?m = "''Error serializing exception: '' @ exc_str (mk_exn TypeError ''unsupported serialized class'') @
                      ''. Original exception: '' @ type_str (exc_type div_error) @ '': '' @
                      exc_str div_error"
  have m: "?m = ''Error serializing exception: unsupported serialized class. Original exception: <class '' @ [CHR 0x27] @ ''ZeroDivisionError'' @ [CHR 0x27] @ ''>: division by zero''"
    by (simp add: mk_exn_def div_error_def type_str_def)
  from exception_reply_replaced[OF demo_serializer_facts(1)
      demo_serializer_facts(2)[where tb = "Some [''Traceback'']"]
      demo_serializer_facts(3)[where m = ?m and tb = "Some [''Traceback'']"],
      where cn = 7 and sq = 42 and flgs = 0 and anns = Map.empty and s = demo_state]
  obtain reply where
    "sendExceptionResponse demo_env 7 42 1 div_error (Some [''Traceback'']) 0 Map.empty demo_state =
              (None, [Sent 7 reply])"
    "mtype reply = MSG_RESULT" "mseq reply = 42" "mflags reply AND FLAGS_EXCEPTION \<noteq> 0"
    "mdata reply = ''Pyro5.errors.PyroError: '' @ ?m"
    by blast
  then show ?thesis
    by (simp only: demo_serializer_facts m) force
qed


section \<open>Batched calls\<close>






lemma try_body_batch:
  assumes "reaches_dispatch env cn msg s ser obj meth vargs kwargs s3"
    and "mflags msg AND FLAGS_BATCH \<noteq> 0"
  shows "try_body env cn msg s =
           (case batch_loop env obj vargs [] s3 of
              (Inl e, evs, s4) \<Rightarrow> (Some e, False, evs, s4)
            | (Inr dat, evs, s4) \<Rightarrow>
                (case send_result env cn msg ser (VList dat) True s4 of
                   (r, evs2) \<Rightarrow> (r, False, evs @ evs2, s4)))"
proof -
  from assms(1) obtain s1 objId registered where
    a: "mtype msg \<noteq> MSG_PING" "mserializer_id msg \<in> serializer_ids env"
       "get_serializer_by_id env (mserializer_id msg) = Inr ser"
       "set_correlation_id env msg s = Inr s1"
       "deserializeCall ser (mdata msg) (mflags msg AND FLAGS_COMPRESSED \<noteq> 0) =
           Inr (objId, meth, vargs, kwargs)"
       "objectsById (enter_context env cn msg s1) objId = Some registered"
       "(if isclass (heap (enter_context env cn msg s1) registered)
          then getInstance env registered cn (enter_context env cn msg s1)
          else (Inr registered, enter_context env cn msg s1)) = (Inr obj, s3)"
    unfolding reaches_dispatch_def by blast
  have d: "dispatch env cn msg ser objId meth vargs kwargs (enter_context env cn msg s1) =
             (case batch_loop env obj vargs [] s3 of
                (Inl e, evs, s4) \<Rightarrow> (Raised e, False, False, evs, s4)
              | (Inr dat, evs, s4) \<Rightarrow> (Reply (VList dat), True, False, evs, s4))"
    using a(6,7) assms(2) by (simp add: dispatch_def)
  show ?thesis
    using a(1-5) by (simp add: try_body_def Let_def d split: prod.splits sum.splits)
qed





lemma in_request_facts:
  "heap (in_request msg) = heap calc_registered"
  "objectsById (in_request msg) = objectsById calc_registered"
  by (simp_all add: in_request_def enter_context_def)

lemma demo_reaches_dispatch:
  assumes "mtype msg = MSG_INVOKE" and "mserializer_id msg = 1"
    and "deserializeCall demo_serializer (mdata msg) (mflags msg AND FLAGS_COMPRESSED \<noteq> 0) =
           Inr (''calc'', meth, vargs, kwargs)"
    and "mannotations msg ''CORR'' = None"
  shows "reaches_dispatch demo_env 7 msg calc_registered demo_serializer 2 meth vargs kwargs
           (in_request msg)"
proof -
  have u: "uuids_drawn calc_registered = 0"
    by (simp add: calc_registered_eq demo_state_def)
  have c: "set_correlation_id demo_env msg calc_registered =
        Inr (calc_registered\<lparr>ctx := (ctx calc_registered)\<lparr>ctx_correlation_id := Some (replicate 16 (CHR ''u''))\<rparr>,
                        uuids_drawn := 1\<rparr>)"
    using assms(4) by (simp add: set_correlation_id_def u) (simp add: demo_env_def)
  have g: "get_serializer_by_id demo_env 1 = Inr demo_serializer" "1 \<in> serializer_ids demo_env"
    by (simp_all add: demo_env_def)
  have o: "objectsById (in_request msg) ''calc'' = Some 2" "\<not> isclass (heap (in_request msg) 2)"
    by (simp_all add: in_request_facts calc_registered_facts)
       (simp add: calc_registered_eq demo_state_def blank_def)
  show ?thesis
    unfolding reaches_dispatch_def
    using assms(1,2,3) g c o
    by (auto simp: in_request_def)
qed

lemma demo_requests:
  "reaches_dispatch demo_env 7 empty_batch_msg calc_registered demo_serializer 2 [] [] []
     (in_request empty_batch_msg)"
  "reaches_dispatch demo_env 7 oneway_empty_batch_msg calc_registered demo_serializer 2 [] [] []
     (in_request oneway_empty_batch_msg)"
  "reaches_dispatch demo_env 7 batch_msg calc_registered demo_serializer 2 [] demo_batch []
     (in_request batch_msg)"
  by (rule demo_reaches_dispatch;
      simp add: empty_batch_msg_def oneway_empty_batch_msg_def batch_msg_def demo_serializer_def)+

lemma demo_flags:
  "mflags batch_msg AND FLAGS_BATCH \<noteq> 0" "mflags batch_msg AND FLAGS_ONEWAY = 0"
  "mflags empty_batch_msg AND FLAGS_BATCH \<noteq> 0" "mflags empty_batch_msg AND FLAGS_ONEWAY = 0"
  "mflags oneway_empty_batch_msg AND FLAGS_BATCH \<noteq> 0"
  "mflags oneway_empty_batch_msg AND FLAGS_ONEWAY \<noteq> 0"
  by (simp_all add: empty_batch_msg_def oneway_empty_batch_msg_def batch_msg_def
      FLAGS_BATCH_def FLAGS_ONEWAY_def)

text \<open>
  In the file as it stands, \<^verbatim>\<open>util\<close> is unbound: for the batch
  \<^verbatim>\<open>[(add,[1,2]), (div,[1,0]), (add,[3,4])]\<close> the first item raises \<^verbatim>\<open>NameError\<close>
  at line 451, before any method is called, and the exception goes to the handler of
  \<open>handleRequest\<close>. The empty batch is the one batch that the file as it stands
  carries out.
\<close>

lemma nonempty_batch_raises_NameError:
  "try_body demo_env 7 batch_msg calc_registered =
     (Some (unbound ''util''), False, [], in_request batch_msg)"
proof -
  have "batch_loop demo_env 2 demo_batch [] (in_request batch_msg) =
          (Inl (unbound ''util''), [], in_request batch_msg)"
    by (simp add: demo_batch_def demo_env_def)
  then show ?thesis
    by (simp add: try_body_batch[OF demo_requests(3) demo_flags(1)])
qed



end
